theory Spec2Isabelle
  imports Main "HOL-Library.Word" "HOL-Library.Multiset"
begin

unbundle bit_operations_syntax

section \<open>The Wine preloader (loader/preloader.c), x86-64 Linux build\<close>

text \<open>
  The embedding follows the branches of \<^verbatim>\<open>loader/preloader.c\<close> that the
  preprocessor selects for an x86-64 Linux build (\<^verbatim>\<open>__x86_64__\<close> defined,
  \<^verbatim>\<open>__APPLE__\<close> not defined): \<^verbatim>\<open>ElfW(Addr)\<close>, \<^verbatim>\<open>unsigned long\<close>,
  \<^verbatim>\<open>size_t\<close> and pointers are 64-bit words, \<^verbatim>\<open>unsigned int\<close> and
  \<^verbatim>\<open>Elf32_Word\<close> are 32-bit words, \<^verbatim>\<open>ElfW(Half)\<close> is a 16-bit word.
\<close>

type_synonym addr = "64 word"

subsection \<open>System calls as events, process outcomes\<close>

text \<open>
  The program has no state of its own beyond a few globals; what it does is issue system
  calls. A run is the list of calls it made, in order, and the way it ended. The answers of
  the kernel that the code looks at are inputs of the model.
\<close>

text \<open>
  The arguments are those of the wrappers: \<^verbatim>\<open>wld_open(name, O_RDONLY)\<close>,
  \<^verbatim>\<open>wld_read(fd, buf, len)\<close>, \<^verbatim>\<open>wld_mmap(start, len, prot, flags, fd, offset)\<close>,
  \<^verbatim>\<open>wld_mprotect(addr, len, prot)\<close>, \<^verbatim>\<open>wld_close(fd)\<close>,
  \<^verbatim>\<open>wld_write(fd, buffer, len)\<close> with the bytes written. \<open>Memset\<close> is not a system call:
  it stands for \<^verbatim>\<open>wld_memset(dest, 0, len)\<close>, a write to the mapped image.
\<close>

datatype event =
    Sys_open string
  | Sys_read int nat
  | Sys_mmap addr "64 word" "32 word" "32 word" int "64 word"
  | Sys_mprotect addr "64 word" "32 word"
  | Memset addr addr
  | Sys_close int
  | Sys_write int string

text \<open>
  \<open>Returns\<close>: the function returned to its caller. \<open>Exits\<close>: \<^verbatim>\<open>wld_exit\<close> ended the
  process with that status. \<open>Undefined\<close>: the C code left the objects it may access (a read
  past a terminator, a write past the end of a buffer), after which C says nothing.
\<close>

datatype 'r outcome = Returns 'r | Exits int | Undefined

subsection \<open>\<^verbatim>\<open>wld_vsprintf\<close>, \<^verbatim>\<open>wld_printf\<close>, \<^verbatim>\<open>fatal_error\<close>\<close>

text \<open>The variadic arguments, by the type \<^verbatim>\<open>va_arg\<close> is asked for.\<close>

datatype va_arg = VA_uint "32 word" | VA_ulong "64 word" | VA_ptr addr | VA_str string

definition hex_chars :: string where
  "hex_chars = ''0123456789abcdef''"

text \<open>
  \<^verbatim>\<open>for (i = 2*sizeof(x) - 1; i >= 0; i--) *str++ = hex_chars[(x>>(i*4))&0xf];\<close>
  with \<open>n = 2*sizeof(x)\<close>.
\<close>

definition hex_digits :: "nat \<Rightarrow> 'a::len word \<Rightarrow> string" where
  "hex_digits n x = map (\<lambda>i. hex_chars ! unat (drop_bit (i * 4) x AND 0xf)) (rev [0..<n])"

text \<open>
  The loop of \<^verbatim>\<open>wld_vsprintf\<close>. The format is the list of characters before its
  terminating NUL, so the empty list is \<^verbatim>\<open>*p == 0\<close>. \<open>str\<close> is what has been written to
  the buffer so far. After a \<^verbatim>\<open>%\<close> and its conversion character the code does
  \<^verbatim>\<open>p++\<close> and then falls into \<^verbatim>\<open>*str++ = *p++\<close>: the character after the
  conversion is copied without being looked at. When that character is the terminator, it is
  copied too and \<^verbatim>\<open>p\<close> moves past the end of the format: the next \<^verbatim>\<open>*p\<close> reads
  outside the string (\<open>None\<close>). A \<^verbatim>\<open>va_arg\<close> of the wrong type, or with no argument
  left, is \<open>None\<close> as well.
\<close>

fun wld_vsprintf_loop :: "string \<Rightarrow> va_arg list \<Rightarrow> string \<Rightarrow> string option" where
  "wld_vsprintf_loop [] args str = Some str"
| "wld_vsprintf_loop (c # p) args str =
     (if c = CHR ''%'' then
        (case p of
           [] \<Rightarrow> Some str
         | d # q \<Rightarrow>
            (if d = CHR ''x'' then
               (case args of
                  VA_uint x # args' \<Rightarrow>
                    (case q of [] \<Rightarrow> None
                     | e # r \<Rightarrow> wld_vsprintf_loop r args' (str @ hex_digits 8 x @ [e]))
                | _ \<Rightarrow> None)
             else if d = CHR ''l'' \<and> (case q of [] \<Rightarrow> False | e # r \<Rightarrow> e = CHR ''x'') then
               (case args of
                  VA_ulong x # args' \<Rightarrow>
                    (case tl q of [] \<Rightarrow> None
                     | e # r \<Rightarrow> wld_vsprintf_loop r args' (str @ hex_digits 16 x @ [e]))
                | _ \<Rightarrow> None)
             else if d = CHR ''p'' then
               (case args of
                  VA_ptr x # args' \<Rightarrow>
                    (case q of [] \<Rightarrow> None
                     | e # r \<Rightarrow> wld_vsprintf_loop r args' (str @ hex_digits 16 x @ [e]))
                | _ \<Rightarrow> None)
             else if d = CHR ''s'' then
               (case args of
                  VA_str s # args' \<Rightarrow>
                    (case q of [] \<Rightarrow> None
                     | e # r \<Rightarrow> wld_vsprintf_loop r args' (str @ s @ [e]))
                | _ \<Rightarrow> None)
             else
               (case q of [] \<Rightarrow> None
                | e # r \<Rightarrow> wld_vsprintf_loop r args (str @ [e]))))
      else wld_vsprintf_loop p args (str @ [c]))"

text \<open>The characters written to \<^verbatim>\<open>buffer\<close>; the C function returns their number.\<close>

definition wld_vsprintf :: "string \<Rightarrow> va_arg list \<Rightarrow> string option" where
  "wld_vsprintf fmt args = wld_vsprintf_loop fmt args []"

text \<open>
  \<^verbatim>\<open>wld_printf\<close> and \<^verbatim>\<open>fatal_error\<close> format into \<^verbatim>\<open>char buffer[256]\<close>;
  \<^verbatim>\<open>wld_vsprintf\<close> writes the characters and a NUL after them and checks no bound, so
  256 characters or more run over the buffer.
\<close>

definition wld_printf :: "string \<Rightarrow> va_arg list \<Rightarrow> event list \<times> unit outcome" where
  "wld_printf fmt args =
     (case wld_vsprintf fmt args of
        None \<Rightarrow> ([], Undefined)
      | Some s \<Rightarrow> if length s < 256 then ([Sys_write 2 s], Returns ()) else ([], Undefined))"

definition fatal_error :: "string \<Rightarrow> va_arg list \<Rightarrow> event list \<times> 'r outcome" where
  "fatal_error fmt args =
     (case wld_vsprintf fmt args of
        None \<Rightarrow> ([], Undefined)
      | Some s \<Rightarrow> if length s < 256 then ([Sys_write 2 s], Exits 1) else ([], Undefined))"

subsection \<open>The preload list\<close>

text \<open>
  \<^verbatim>\<open>struct wine_preload_info { void *addr; size_t size; }\<close>; the array
  \<^verbatim>\<open>preload_info[]\<close> is a list of that length. An entry of size 0 ends the list.
\<close>

record wine_preload_info =
  addr :: addr
  size' :: "64 word"

definition preload_info_init :: "wine_preload_info list" where
  "preload_info_init =
     [\<lparr>addr = 0x000000010000, size' = 0x00100000\<rparr>,
      \<lparr>addr = 0x000000110000, size' = 0x67ef0000\<rparr>,
      \<lparr>addr = 0x00007ff00000, size' = 0x000f0000\<rparr>,
      \<lparr>addr = 0x7ffffe000000, size' = 0x01ff0000\<rparr>,
      \<lparr>addr = 0, size' = 0\<rparr>,
      \<lparr>addr = 0, size' = 0\<rparr>]"

text \<open>
  \<^verbatim>\<open>remove_preload_range\<close>: the loop copies entry \<open>i+1\<close> over entry \<open>i\<close> while entry
  \<open>i\<close> has a size. An index outside the array is \<open>None\<close>.
\<close>

function remove_preload_range :: "nat \<Rightarrow> wine_preload_info list \<Rightarrow> wine_preload_info list option" where
  "remove_preload_range i info =
     (if i < length info then
        (if size' (info ! i) \<noteq> 0 then
           (if Suc i < length info
            then remove_preload_range (Suc i) (info[i := info ! Suc i])
            else None)
         else Some info)
      else None)"
  by pat_completeness auto
termination
  by (relation "measure (\<lambda>(i, info). length info - i)") auto

declare remove_preload_range.simps [simp del]

text \<open>The index of the terminator: the first entry of size 0.\<close>

definition list_end :: "wine_preload_info list \<Rightarrow> nat" where
  "list_end info = length (takeWhile (\<lambda>e. size' e \<noteq> 0) info)"

definition zero_terminated :: "wine_preload_info list \<Rightarrow> bool" where
  "zero_terminated info = (\<exists>e \<in> set info. size' e = 0)"

subsection \<open>\<^verbatim>\<open>preload_reserve\<close>\<close>

text \<open>
  The globals of the program: \<^verbatim>\<open>page_size\<close>, \<^verbatim>\<open>page_mask\<close>,
  \<^verbatim>\<open>preloader_start\<close>, \<^verbatim>\<open>preloader_end\<close> and the array
  \<^verbatim>\<open>preload_info\<close>.
\<close>

record globals =
  page_size :: "64 word"
  page_mask :: "64 word"
  preloader_start :: addr
  preloader_end :: addr
  preload_info :: "wine_preload_info list"

text \<open>
  The tests on \<^verbatim>\<open>*p\<close> check both ends of a range of ASCII codes, so the sign of
  \<^verbatim>\<open>char\<close> plays no part: the code of the character is compared as a number.
\<close>

definition char_in :: "char \<Rightarrow> char \<Rightarrow> char \<Rightarrow> bool" where
  "char_in lo hi c = ((of_char lo :: nat) \<le> of_char c \<and> (of_char c :: nat) \<le> of_char hi)"

text \<open>
  The parsing loop \<^verbatim>\<open>for (p = str; *p; p++)\<close> over the characters of \<open>str\<close>, with the
  locals \<open>result\<close>, \<open>start\<close> and \<open>first\<close>. \<open>None\<close> is \<^verbatim>\<open>goto error\<close>.
\<close>

fun preload_reserve_parse ::
  "64 word \<Rightarrow> string \<Rightarrow> 64 word \<Rightarrow> addr \<Rightarrow> bool \<Rightarrow> (64 word \<times> addr \<times> bool) option" where
  "preload_reserve_parse pm [] result start first = Some (result, start, first)"
| "preload_reserve_parse pm (c # p) result start first =
     (if char_in CHR ''0'' CHR ''9'' c then
        preload_reserve_parse pm p (result * 16 + of_char c - of_char CHR ''0'') start first
      else if char_in CHR ''a'' CHR ''f'' c then
        preload_reserve_parse pm p (result * 16 + of_char c - of_char CHR ''a'' + 10) start first
      else if char_in CHR ''A'' CHR ''F'' c then
        preload_reserve_parse pm p (result * 16 + of_char c - of_char CHR ''A'' + 10) start first
      else if c = CHR ''-'' then
        (if \<not> first then None
         else preload_reserve_parse pm p 0 (result AND NOT pm) False)
      else None)"

text \<open>
  The loop \<^verbatim>\<open>for (i = 0; preload_info[i].size; i++)\<close> that checks for overlap with the
  low memory areas; it returns \<open>i\<close>, \<open>start\<close> and \<open>end\<close> as they are when the loop is left.
  \<^verbatim>\<open>(char *)addr + size\<close> is computed in 64 bits. Reading past the array is \<open>None\<close>.
\<close>

function preload_reserve_low ::
  "wine_preload_info list \<Rightarrow> nat \<Rightarrow> addr \<Rightarrow> addr \<Rightarrow> (nat \<times> addr \<times> addr) option" where
  "preload_reserve_low info i start end' =
     (if i < length info then
        (if size' (info ! i) \<noteq> 0 then
           (if addr (info ! i) > 0x00110000 then Some (i, start, end')
            else if end' \<le> addr (info ! i) + size' (info ! i) then Some (i, 0, 0)
            else preload_reserve_low info (Suc i)
                   (if start < addr (info ! i) + size' (info ! i)
                    then addr (info ! i) + size' (info ! i) else start) end')
         else Some (i, start, end'))
      else None)"
  by pat_completeness auto
termination
  by (relation "measure (\<lambda>(info, i, start, end'). length info - i)") auto

declare preload_reserve_low.simps [simp del]

text \<open>\<^verbatim>\<open>while (preload_info[i].size) i++;\<close>\<close>

function preload_reserve_slot :: "wine_preload_info list \<Rightarrow> nat \<Rightarrow> nat option" where
  "preload_reserve_slot info i =
     (if i < length info then
        (if size' (info ! i) \<noteq> 0 then preload_reserve_slot info (Suc i) else Some i)
      else None)"
  by pat_completeness auto
termination
  by (relation "measure (\<lambda>(info, i). length info - i)") auto

declare preload_reserve_slot.simps [simp del]

text \<open>
  \<^verbatim>\<open>preload_reserve\<close>, non-Apple build (the check against the preloader's own extent is
  compiled in). Pointers are compared as unsigned 64-bit numbers.
\<close>

definition preload_reserve :: "globals \<Rightarrow> string \<Rightarrow> event list \<times> globals outcome" where
  "preload_reserve g str =
     (case preload_reserve_parse (page_mask g) str 0 0 True of
        None \<Rightarrow> fatal_error ''invalid WINEPRELOADRESERVE value '%s'\<newline>'' [VA_str str]
      | Some (result, start0, first) \<Rightarrow>
          if first \<and> result \<noteq> 0
          then fatal_error ''invalid WINEPRELOADRESERVE value '%s'\<newline>'' [VA_str str]
          else
            let end0 = (if \<not> first then (result + page_mask g) AND NOT (page_mask g) else 0);
                (evs, chk) =
                  (if end0 \<le> start0 then ([], Returns ())
                   else if end0 > preloader_start g \<and> start0 \<le> preloader_end g
                   then wld_printf ''WINEPRELOADRESERVE range %p-%p overlaps preloader %p-%p\<newline>''
                          [VA_ptr start0, VA_ptr end0, VA_ptr (preloader_start g), VA_ptr (preloader_end g)]
                   else ([], Returns ()));
                (start1, end1) =
                  (if end0 \<le> start0 then (0, 0)
                   else if end0 > preloader_start g \<and> start0 \<le> preloader_end g then (0, 0)
                   else (start0, end0))
            in case chk of
                 Returns _ \<Rightarrow>
                   (case preload_reserve_low (preload_info g) 0 start1 end1 of
                      None \<Rightarrow> (evs, Undefined)
                    | Some (i, start, end') \<Rightarrow>
                        (case preload_reserve_slot (preload_info g) i of
                           None \<Rightarrow> (evs, Undefined)
                         | Some k \<Rightarrow>
                             (evs, Returns (g\<lparr>preload_info :=
                                (preload_info g)[k := \<lparr>addr = start, size' = end' - start\<rparr>]\<rparr>))))
               | Exits n \<Rightarrow> (evs, Exits n)
               | Undefined \<Rightarrow> (evs, Undefined))"

subsection \<open>Notions used to state the properties of \<^verbatim>\<open>preload_reserve\<close>\<close>

definition hex_digit :: "char \<Rightarrow> bool" where
  "hex_digit c = (char_in CHR ''0'' CHR ''9'' c \<or> char_in CHR ''a'' CHR ''f'' c \<or> char_in CHR ''A'' CHR ''F'' c)"

definition hex_digit_val :: "char \<Rightarrow> 64 word" where
  "hex_digit_val c =
     (if char_in CHR ''0'' CHR ''9'' c then of_char c - of_char CHR ''0''
      else if char_in CHR ''a'' CHR ''f'' c then of_char c - of_char CHR ''a'' + 10
      else of_char c - of_char CHR ''A'' + 10)"

definition hex_value :: "string \<Rightarrow> 64 word" where
  "hex_value s = foldl (\<lambda>r c. r * 16 + hex_digit_val c) 0 s"

definition before_dash :: "string \<Rightarrow> string" where
  "before_dash str = takeWhile (\<lambda>c. c \<noteq> CHR ''-'') str"

definition after_dash :: "string \<Rightarrow> string" where
  "after_dash str = tl (dropWhile (\<lambda>c. c \<noteq> CHR ''-'') str)"

definition range_form :: "string \<Rightarrow> bool" where
  "range_form str = (CHR ''-'' \<in> set str \<and> list_all hex_digit (before_dash str) \<and> list_all hex_digit (after_dash str))"

definition zero_form :: "string \<Rightarrow> bool" where
  "zero_form str = (list_all hex_digit str \<and> hex_value str = 0)"

definition range_end :: "wine_preload_info \<Rightarrow> addr" where
  "range_end e = addr e + size' e"

definition low_ranges :: "wine_preload_info list \<Rightarrow> wine_preload_info list" where
  "low_ranges info = takeWhile (\<lambda>e. size' e \<noteq> 0 \<and> addr e \<le> 0x00110000) info"

definition low_adjusted :: "wine_preload_info list \<Rightarrow> addr \<Rightarrow> addr \<Rightarrow> wine_preload_info" where
  "low_adjusted info start end' =
     (if \<exists>e \<in> set (low_ranges info). end' \<le> range_end e then \<lparr>addr = 0, size' = 0\<rparr>
      else \<lparr>addr = Max (set (start # map range_end (low_ranges info))),
            size' = end' - Max (set (start # map range_end (low_ranges info)))\<rparr>)"

definition overlaps_preloader :: "globals \<Rightarrow> addr \<Rightarrow> addr \<Rightarrow> bool" where
  "overlaps_preloader g start end' = (preloader_start g < end' \<and> start \<le> preloader_end g)"

definition parsed_start :: "globals \<Rightarrow> string \<Rightarrow> addr" where
  "parsed_start g str = hex_value (before_dash str) AND NOT (page_mask g)"

definition parsed_end :: "globals \<Rightarrow> string \<Rightarrow> addr" where
  "parsed_end g str = (hex_value (after_dash str) + page_mask g) AND NOT (page_mask g)"

definition globals_example :: globals where
  "globals_example = \<lparr>page_size = 0x1000, page_mask = 0xfff, preloader_start = 0x7d400000, preloader_end = 0x7d404000,
     preload_info = preload_info_init\<rparr>"

subsection \<open>\<^verbatim>\<open>map_so_lib\<close>\<close>

text \<open>
  Constants of the system headers \<^verbatim>\<open><elf.h>\<close>, \<^verbatim>\<open><sys/mman.h>\<close> and
  \<^verbatim>\<open><fcntl.h>\<close>, with their values on x86-64 Linux. \<^verbatim>\<open>MAP_COPY\<close> is not defined
  there, so the source's own \<^verbatim>\<open>#define MAP_COPY MAP_PRIVATE\<close> applies.
\<close>

definition PT_LOAD :: "32 word" where "PT_LOAD = 1"

definition PT_DYNAMIC :: "32 word" where "PT_DYNAMIC = 2"

definition PT_INTERP :: "32 word" where "PT_INTERP = 3"

definition PT_PHDR :: "32 word" where "PT_PHDR = 6"

definition ET_DYN :: "16 word" where "ET_DYN = 3"

definition EM_X86_64 :: "16 word" where "EM_X86_64 = 62"

definition PF_X :: "32 word" where "PF_X = 1"

definition PF_W :: "32 word" where "PF_W = 2"

definition PF_R :: "32 word" where "PF_R = 4"

definition PROT_NONE :: "32 word" where "PROT_NONE = 0"

definition PROT_READ :: "32 word" where "PROT_READ = 1"

definition PROT_WRITE :: "32 word" where "PROT_WRITE = 2"

definition PROT_EXEC :: "32 word" where "PROT_EXEC = 4"

definition MAP_FILE :: "32 word" where "MAP_FILE = 0"

definition MAP_PRIVATE :: "32 word" where "MAP_PRIVATE = 2"

definition MAP_COPY :: "32 word" where "MAP_COPY = MAP_PRIVATE"

definition MAP_FIXED :: "32 word" where "MAP_FIXED = 0x10"

definition MAP_ANON :: "32 word" where "MAP_ANON = 0x20"

text \<open>\<^verbatim>\<open>sizeof(ElfW(Phdr))\<close>, \<^verbatim>\<open>sizeof(Elf32_Dyn)\<close> and \<^verbatim>\<open>sizeof(buf)\<close>.\<close>

definition sizeof_Phdr :: "64 word" where "sizeof_Phdr = 56"

definition sizeof_Elf32_Dyn :: "64 word" where "sizeof_Elf32_Dyn = 8"

definition sizeof_buf :: "64 word" where "sizeof_buf = 0x800"

text \<open>The fields of \<^verbatim>\<open>ElfW(Ehdr)\<close> and \<^verbatim>\<open>ElfW(Phdr)\<close> that the code reads.\<close>

record Elf_Ehdr =
  e_ident :: "nat \<Rightarrow> 8 word"
  e_type :: "16 word"
  e_machine :: "16 word"
  e_entry :: addr
  e_phoff :: "64 word"
  e_phnum :: "16 word"

record Elf_Phdr =
  p_type :: "32 word"
  p_flags :: "32 word"
  p_offset :: "64 word"
  p_vaddr :: addr
  p_filesz :: "64 word"
  p_memsz :: "64 word"
  p_align :: "64 word"

record wld_link_map =
  l_addr :: addr
  l_ld :: addr
  l_phdr :: addr
  l_entry :: addr
  l_ldnum :: "16 word"
  l_phnum :: "16 word"
  l_map_start :: addr
  l_map_end :: addr
  l_interp :: addr

record loadcmd =
  mapstart :: addr
  mapend :: addr
  dataend :: addr
  allocend :: addr
  mapoff :: "64 word"
  prot :: "32 word"

text \<open>
  What the kernel answers for the file \<^verbatim>\<open>map_so_lib\<close> is given: the result of
  \<^verbatim>\<open>wld_open\<close> (a descriptor, or \<open>-1\<close>), the result of \<^verbatim>\<open>wld_read\<close>, the 2 KiB
  buffer after the read seen as \<^verbatim>\<open>ElfW(Ehdr)\<close> (\<open>header\<close>) and, from offset
  \<^verbatim>\<open>e_phoff\<close>, as an array of \<^verbatim>\<open>ElfW(Phdr)\<close> (\<open>phdr_table\<close>), and the address the
  first \<^verbatim>\<open>wld_mmap\<close> returns for a position-independent object. The results of the other
  calls of \<^verbatim>\<open>wld_mmap\<close>, of \<^verbatim>\<open>wld_mprotect\<close> and of \<^verbatim>\<open>wld_close\<close> are ignored by
  the code.
\<close>

record elf_file =
  open_result :: int
  read_result :: int
  header :: Elf_Ehdr
  phdr_table :: "nat \<Rightarrow> Elf_Phdr"
  mmap_result :: addr

text \<open>Events that happened before a call come first.\<close>

definition after :: "event list \<Rightarrow> event list \<times> 'r outcome \<Rightarrow> event list \<times> 'r outcome" where
  "after evs r = (evs @ fst r, snd r)"

text \<open>
  The body of \<^verbatim>\<open>case PT_LOAD\<close>: the load command made from a program header (after the
  two alignment checks).
\<close>

definition make_loadcmd :: "globals \<Rightarrow> Elf_Phdr \<Rightarrow> loadcmd" where
  "make_loadcmd g ph =
     \<lparr>mapstart = p_vaddr ph AND NOT (p_align ph - 1),
      mapend = (p_vaddr ph + p_filesz ph + page_mask g) AND NOT (page_mask g),
      dataend = p_vaddr ph + p_filesz ph,
      allocend = p_vaddr ph + p_memsz ph,
      mapoff = p_offset ph AND NOT (p_align ph - 1),
      prot = (if p_flags ph AND PF_R \<noteq> 0 then PROT_READ else 0)
          OR (if p_flags ph AND PF_W \<noteq> 0 then PROT_WRITE else 0)
          OR (if p_flags ph AND PF_X \<noteq> 0 then PROT_EXEC else 0)\<rparr>"

text \<open>
  The loop \<^verbatim>\<open>for (ph = phdr; ph < &phdr[l->l_phnum]; ++ph)\<close>, from entry \<open>i\<close> on, with
  the link map and the load commands collected so far. The buffer holds 2 KiB: a program
  header that does not lie inside it is read outside the object \<^verbatim>\<open>buf\<close>.
\<close>

function scan_phdrs ::
  "globals \<Rightarrow> elf_file \<Rightarrow> string \<Rightarrow> nat \<Rightarrow> wld_link_map \<Rightarrow> loadcmd list
     \<Rightarrow> event list \<times> (wld_link_map \<times> loadcmd list) outcome" where
  "scan_phdrs g f name i l loadcmds =
     (if i < unat (l_phnum l) then
        (if unat (e_phoff (header f)) + (i + 1) * unat sizeof_Phdr \<le> unat sizeof_buf then
           (let ph = phdr_table f i in
            if p_type ph = PT_DYNAMIC then
              scan_phdrs g f name (Suc i)
                (l\<lparr>l_ld := p_vaddr ph, l_ldnum := ucast (p_memsz ph div sizeof_Elf32_Dyn)\<rparr>) loadcmds
            else if p_type ph = PT_PHDR then
              scan_phdrs g f name (Suc i) (l\<lparr>l_phdr := p_vaddr ph\<rparr>) loadcmds
            else if p_type ph = PT_LOAD then
              (if p_align ph AND page_mask g \<noteq> 0 then
                 fatal_error ''%s: ELF load command alignment not page-aligned\<newline>'' [VA_str name]
               else if (p_vaddr ph - p_offset ph) AND (p_align ph - 1) \<noteq> 0 then
                 fatal_error ''%s: ELF load command address/offset not properly aligned\<newline>'' [VA_str name]
               else scan_phdrs g f name (Suc i) l (loadcmds @ [make_loadcmd g ph]))
            else if p_type ph = PT_INTERP then
              scan_phdrs g f name (Suc i) (l\<lparr>l_interp := p_vaddr ph\<rparr>) loadcmds
            else scan_phdrs g f name (Suc i) l loadcmds)
         else ([], Undefined))
      else ([], Returns (l, loadcmds)))"
  by pat_completeness auto

termination
  by (relation "measure (\<lambda>(g, f, name, i, l, loadcmds). unat (l_phnum l) - i)") auto

declare scan_phdrs.simps [simp del]

text \<open>
  The loop body from the label \<^verbatim>\<open>postmap\<close> on: the program header is looked for in the
  segment, and the end of the segment beyond the file's data is zeroed and mapped.
\<close>

definition postmap ::
  "globals \<Rightarrow> Elf_Ehdr \<Rightarrow> loadcmd \<Rightarrow> wld_link_map \<Rightarrow> event list \<times> wld_link_map" where
  "postmap g hdr c l =
     (let l' =
        (if l_phdr l = 0 \<and> mapoff c \<le> e_phoff hdr
            \<and> mapend c - mapstart c + mapoff c \<ge> e_phoff hdr + ucast (e_phnum hdr) * sizeof_Phdr
         then l\<lparr>l_phdr := mapstart c + e_phoff hdr - mapoff c\<rparr> else l)
      in
      if allocend c > dataend c then
        (let zero = l_addr l + dataend c;
             zeroend = (l_addr l + allocend c + page_mask g) AND NOT (page_mask g);
             zeropage0 = (zero + page_mask g) AND NOT (page_mask g);
             zeropage = (if zeroend < zeropage0 then zeroend else zeropage0)
         in
         ((if zeropage > zero then
             (if prot c AND PROT_WRITE = 0
              then [Sys_mprotect (zero AND NOT (page_mask g)) (page_size g) (prot c OR PROT_WRITE)]
              else [])
             @ [Memset zero (zeropage - zero)]
             @ (if prot c AND PROT_WRITE = 0
                then [Sys_mprotect (zero AND NOT (page_mask g)) (page_size g) (prot c)]
                else [])
           else [])
          @ (if zeroend > zeropage
             then [Sys_mmap zeropage (zeroend - zeropage) (prot c)
                     (MAP_ANON OR MAP_PRIVATE OR MAP_FIXED) (- 1) 0]
             else []),
          l'))
      else ([], l'))"

text \<open>
  The loop \<^verbatim>\<open>while (c < &loadcmds[nloadcmds])\<close> entered at its top: each load command
  with \<^verbatim>\<open>mapend > mapstart\<close> is mapped from the file at its fixed address, then the
  part from \<^verbatim>\<open>postmap\<close> runs.
\<close>

fun map_segments ::
  "globals \<Rightarrow> Elf_Ehdr \<Rightarrow> int \<Rightarrow> loadcmd list \<Rightarrow> wld_link_map \<Rightarrow> event list \<times> wld_link_map" where
  "map_segments g hdr fd [] l = ([], l)"
| "map_segments g hdr fd (c # cs) l =
     (let evs1 = (if mapend c > mapstart c
                  then [Sys_mmap (l_addr l + mapstart c) (mapend c - mapstart c) (prot c)
                          (MAP_FIXED OR MAP_COPY OR MAP_FILE) fd (mapoff c)]
                  else []);
          (evs2, l') = postmap g hdr c l;
          (evs3, l'') = map_segments g hdr fd cs l'
      in (evs1 @ evs2 @ evs3, l''))"

text \<open>The end of \<^verbatim>\<open>map_so_lib\<close>, after the loop.\<close>

definition finish_map :: "int \<Rightarrow> wld_link_map \<Rightarrow> event list \<times> wld_link_map outcome" where
  "finish_map fd l =
     (if l_phdr l = 0 then fatal_error ''no program header\<newline>'' []
      else ([Sys_close fd], Returns (l\<lparr>l_phdr := l_phdr l + l_addr l, l_entry := l_entry l + l_addr l\<rparr>)))"

text \<open>
  The assignments to \<^verbatim>\<open>l\<close> before the loop over the program headers; the other fields
  keep what the caller's structure held.
\<close>

definition init_link_map :: "Elf_Ehdr \<Rightarrow> wld_link_map \<Rightarrow> wld_link_map" where
  "init_link_map hdr l0 =
     l0\<lparr>l_ld := 0, l_addr := 0, l_phdr := 0, l_phnum := e_phnum hdr, l_entry := e_entry hdr, l_interp := 0\<rparr>"

text \<open>
  \<^verbatim>\<open>map_so_lib\<close>. \<open>l0\<close> is the caller's \<^verbatim>\<open>struct wld_link_map\<close> as it is on entry.
  For a position-independent object the whole extent is mapped first and the code jumps to
  \<^verbatim>\<open>postmap\<close> inside the loop, so the first load command is not mapped again; the loop
  then goes on with the second load command from its top.
  \<^verbatim>\<open>ELF_PREFERRED_ADDRESS(loader, maplength, c->mapstart) - MAP_BASE_ADDR(l)\<close> expands to
  \<^verbatim>\<open>c->mapstart - 0\<close>.
\<close>

definition map_so_lib ::
  "globals \<Rightarrow> elf_file \<Rightarrow> string \<Rightarrow> wld_link_map \<Rightarrow> event list \<times> wld_link_map outcome" where
  "map_so_lib g f name l0 =
     (let fd = open_result f; hdr = header f in
      if fd = - 1 then after [Sys_open name] (fatal_error ''%s: could not open\<newline>'' [VA_str name])
      else if read_result f \<noteq> uint sizeof_buf then
        after [Sys_open name, Sys_read fd (unat sizeof_buf)]
          (fatal_error ''%s: failed to read ELF header\<newline>'' [VA_str name])
      else after [Sys_open name, Sys_read fd (unat sizeof_buf)]
       (if e_ident hdr 0 \<noteq> 0x7f \<or> e_ident hdr 1 \<noteq> of_char CHR ''E''
            \<or> e_ident hdr 2 \<noteq> of_char CHR ''L'' \<or> e_ident hdr 3 \<noteq> of_char CHR ''F'' then
          fatal_error ''%s: not an ELF binary... don't know how to load it\<newline>'' [VA_str name]
        else if e_machine hdr \<noteq> EM_X86_64 then
          fatal_error ''%s: not an x86-64 ELF binary... don't know how to load it\<newline>'' [VA_str name]
        else if unat (e_phnum hdr) > 16 then
          fatal_error ''%s: oops... not enough space for load commands\<newline>'' [VA_str name]
        else if e_phoff hdr + ucast (e_phnum hdr) * sizeof_Phdr > sizeof_buf then
          fatal_error ''%s: oops... not enough space for ELF headers\<newline>'' [VA_str name]
        else
          (case scan_phdrs g f name 0 (init_link_map hdr l0) [] of
             (evs, Exits n) \<Rightarrow> (evs, Exits n)
           | (evs, Undefined) \<Rightarrow> (evs, Undefined)
           | (evs, Returns (l, loadcmds)) \<Rightarrow>
               (case loadcmds of
                  [] \<Rightarrow> after evs (fatal_error ''%s: no segments to load\<newline>'' [VA_str name])
                | c # cs \<Rightarrow>
                    (let maplength = allocend (last loadcmds) - mapstart c in
                     if e_type hdr = ET_DYN then
                       (let mappref = mapstart c;
                            l1 = l\<lparr>l_map_start := mmap_result f\<rparr>;
                            l2 = l1\<lparr>l_map_end := l_map_start l1 + maplength\<rparr>;
                            l3 = l2\<lparr>l_addr := l_map_start l2 - mapstart c\<rparr>;
                            (evs2, l4) = postmap g hdr c l3;
                            (evs3, l5) = map_segments g hdr fd cs l4
                        in after (evs
                              @ [Sys_mmap mappref maplength (prot c) (MAP_COPY OR MAP_FILE) fd (mapoff c),
                                 Sys_mprotect (l_addr l3 + mapend c) (allocend (last loadcmds) - mapend c)
                                   PROT_NONE]
                              @ evs2 @ evs3)
                             (finish_map fd l5))
                     else if mapstart c + maplength > preloader_start g \<and> mapstart c \<le> preloader_end g then
                       after evs
                         (fatal_error ''%s: binary overlaps preloader (%p-%p)\<newline>''
                            [VA_str name, VA_ptr (mapstart c), VA_ptr (mapstart c + maplength)])
                     else
                       (let l1 = l\<lparr>l_map_start := mapstart c + l_addr l\<rparr>;
                            l2 = l1\<lparr>l_map_end := l_map_start l1 + maplength\<rparr>;
                            (evs3, l3) = map_segments g hdr fd loadcmds l2
                        in after (evs @ evs3) (finish_map fd l3)))))))"

text \<open>
  A position-independent executable with two loadable segments: text at 0 (one page of
  file data) and data at \<open>0x2000\<close> (\<open>0x800\<close> bytes of file data, \<open>0x2800\<close> bytes of memory),
  as the kernel could hand it to \<^verbatim>\<open>map_so_lib\<close>; the first \<^verbatim>\<open>wld_mmap\<close> returns
  \<open>0x7f0000000000\<close>.
\<close>

definition ph_text :: Elf_Phdr where
  "ph_text = \<lparr>p_type = PT_LOAD, p_flags = PF_R OR PF_X, p_offset = 0, p_vaddr = 0,
      p_filesz = 0x1000, p_memsz = 0x1000, p_align = 0x1000\<rparr>"

definition ph_data :: Elf_Phdr where
  "ph_data = \<lparr>p_type = PT_LOAD, p_flags = PF_R OR PF_W, p_offset = 0x1000, p_vaddr = 0x2000,
      p_filesz = 0x800, p_memsz = 0x2800, p_align = 0x1000\<rparr>"

definition elf_magic :: "nat \<Rightarrow> 8 word" where
  "elf_magic i = (if i = 0 then 0x7f else if i = 1 then of_char CHR ''E''
                  else if i = 2 then of_char CHR ''L'' else if i = 3 then of_char CHR ''F'' else 0)"

definition hdr_pie :: Elf_Ehdr where
  "hdr_pie = \<lparr>e_ident = elf_magic, e_type = ET_DYN, e_machine = EM_X86_64, e_entry = 0x100,
      e_phoff = 64, e_phnum = 2\<rparr>"

definition file_pie :: elf_file where
  "file_pie = \<lparr>open_result = 3, read_result = 2048, header = hdr_pie,
      phdr_table = (\<lambda>i. if i = 0 then ph_text else ph_data), mmap_result = 0x7f0000000000\<rparr>"

text \<open>
  The same file with a program-header offset of \<open>2^64 - 56\<close> and one program header: the
  table would begin 56 bytes before \<^verbatim>\<open>buf\<close>.
\<close>

definition file_phoff_wraps :: elf_file where
  "file_phoff_wraps = file_pie\<lparr>header := hdr_pie\<lparr>e_phoff := 0xffffffffffffffc8, e_phnum := 1\<rparr>\<rparr>"

text \<open>
  A fixed-address executable (\<^verbatim>\<open>ET_EXEC\<close> is 2) whose two segments, at \<open>0x7d000000\<close> and
  \<open>0x7d402000\<close>, span the preloader of \<open>globals_example\<close>.
\<close>

definition file_exec_overlap :: elf_file where
  "file_exec_overlap = file_pie\<lparr>header := hdr_pie\<lparr>e_type := 2\<rparr>,
      phdr_table := (\<lambda>i. if i = 0 then ph_text\<lparr>p_vaddr := 0x7d000000\<rparr>
                         else ph_data\<lparr>p_vaddr := 0x7d402000, p_offset := 0x402000\<rparr>)\<rparr>"

text \<open>Whether \<open>xs\<close> occurs in \<open>ys\<close> as a contiguous run.\<close>

fun occurs_in :: "'a list \<Rightarrow> 'a list \<Rightarrow> bool" where
  "occurs_in xs [] = (xs = [])"
| "occurs_in xs (y # ys) = (take (length xs) (y # ys) = xs \<or> occurs_in xs ys)"

definition link_map_zero :: wld_link_map where
  "link_map_zero = \<lparr>l_addr = 0, l_ld = 0, l_phdr = 0, l_entry = 0, l_ldnum = 0, l_phnum = 0,
      l_map_start = 0, l_map_end = 0, l_interp = 0\<rparr>"

text \<open>The conditions under which \<^verbatim>\<open>map_so_lib\<close> reaches the loop over the program headers.\<close>

definition header_accepted :: "elf_file \<Rightarrow> bool" where
  "header_accepted f =
     (open_result f \<noteq> - 1 \<and> read_result f = uint sizeof_buf
      \<and> e_ident (header f) 0 = 0x7f \<and> e_ident (header f) 1 = of_char CHR ''E''
      \<and> e_ident (header f) 2 = of_char CHR ''L'' \<and> e_ident (header f) 3 = of_char CHR ''F''
      \<and> e_machine (header f) = EM_X86_64
      \<and> \<not> unat (e_phnum (header f)) > 16
      \<and> \<not> e_phoff (header f) + ucast (e_phnum (header f)) * sizeof_Phdr > sizeof_buf)"


subsection \<open>\<^verbatim>\<open>set_auxiliary_values\<close>\<close>

text \<open>
  The auxiliary vector lives on the stack and is rewritten in place, and the stack below it
  is moved byte by byte: memory is a store from addresses to bytes. x86-64 is little-endian.
\<close>

type_synonym memory = "addr \<Rightarrow> 8 word"

fun load_le :: "memory \<Rightarrow> addr \<Rightarrow> nat \<Rightarrow> 64 word" where
  "load_le m a 0 = 0"
| "load_le m a (Suc k) = ucast (m a) OR push_bit 8 (load_le m (a + 1) k)"

definition load64 :: "memory \<Rightarrow> addr \<Rightarrow> 64 word" where
  "load64 m a = load_le m a 8"


text \<open>
  \<^verbatim>\<open>struct wld_auxv { ElfW(Addr) a_type; union { ElfW(Addr) a_val; } a_un; }\<close>: 16 bytes,
  \<^verbatim>\<open>a_type\<close> at offset 0 and \<^verbatim>\<open>a_val\<close> at offset 8. \<open>a_type m av i\<close> reads
  \<^verbatim>\<open>av[i].a_type\<close>.
\<close>

definition AT_NULL :: "64 word" where "AT_NULL = 0"

definition a_type :: "memory \<Rightarrow> addr \<Rightarrow> nat \<Rightarrow> 64 word" where
  "a_type m av i = load64 m (av + 16 * of_nat i)"






text \<open>
  \<^verbatim>\<open>for (i = 0; i < av_count; i++) if (av[i].a_type == t) break;\<close>: the first index below
  \<open>av_count\<close> whose entry has type \<open>t\<close>, if there is one.
\<close>

definition find_type :: "memory \<Rightarrow> addr \<Rightarrow> nat \<Rightarrow> 64 word \<Rightarrow> nat option" where
  "find_type m av av_count t = List.find (\<lambda>i. a_type m av i = t) [0..<av_count]"


text \<open>The loop that counts the values of \<open>new_av\<close> that are not in \<open>av\<close>.\<close>

fun count_new ::
  "memory \<Rightarrow> addr \<Rightarrow> nat \<Rightarrow> (64 word \<times> 64 word) list \<Rightarrow> nat \<Rightarrow> nat option" where
  "count_new m av av_count [] new_count = None"
| "count_new m av av_count ((t, v) # new_av) new_count =
     (if t = AT_NULL then Some new_count
      else count_new m av av_count new_av
             (if find_type m av av_count t = None then Suc new_count else new_count))"































section \<open>Properties\<close>

subsection \<open>\<^verbatim>\<open>wld_vsprintf\<close>\<close>

text \<open>
  Claim C10. After each of the conversions \<^verbatim>\<open>%x\<close>, \<^verbatim>\<open>%lx\<close>, \<^verbatim>\<open>%p\<close> and
  \<^verbatim>\<open>%s\<close> the next character \<open>c\<close> of the format, whatever it is, is appended to the
  output and the loop goes on behind it. So in \<^verbatim>\<open>"%x%s"\<close> the second \<^verbatim>\<open>%\<close> and the
  \<^verbatim>\<open>s\<close> are both written out, and the string argument is not used.
\<close>

theorem wld_vsprintf_literal_after_conversion:
  "wld_vsprintf_loop (CHR ''%'' # CHR ''x'' # c # rest) (VA_uint x # args) str
     = wld_vsprintf_loop rest args (str @ hex_digits 8 x @ [c])
   \<and> wld_vsprintf_loop (CHR ''%'' # CHR ''l'' # CHR ''x'' # c # rest) (VA_ulong y # args) str
     = wld_vsprintf_loop rest args (str @ hex_digits 16 y @ [c])
   \<and> wld_vsprintf_loop (CHR ''%'' # CHR ''p'' # c # rest) (VA_ptr z # args) str
     = wld_vsprintf_loop rest args (str @ hex_digits 16 z @ [c])
   \<and> wld_vsprintf_loop (CHR ''%'' # CHR ''s'' # c # rest) (VA_str s # args) str
     = wld_vsprintf_loop rest args (str @ s @ [c])
   \<and> wld_vsprintf ''%x%s'' [VA_uint x, VA_str s] = Some (hex_digits 8 x @ ''%s'')
   \<and> wld_vsprintf ''%x%s'' [VA_uint 42, VA_str ''abc''] = Some ''0000002a%s''"
proof -
  have "hex_digits 8 (42 :: 32 word) = ''0000002a''"
    by code_simp
  then show ?thesis
    by (simp add: wld_vsprintf_def)
qed

subsection \<open>\<^verbatim>\<open>remove_preload_range\<close>\<close>

lemma remove_preload_range_shift:
  "n < length info \<Longrightarrow> size' (info ! n) = 0 \<Longrightarrow> \<forall>j. i \<le> j \<and> j < n \<longrightarrow> size' (info ! j) \<noteq> 0 \<Longrightarrow> i \<le> n \<Longrightarrow>
   remove_preload_range i info = Some (take i info @ drop (Suc i) (take (Suc n) info) @ drop n info)"
proof (induction "n - i" arbitrary: i info)
  case 0
  then have "i = n" by simp
  with 0 show ?case
    by (simp add: remove_preload_range.simps)
next
  case (Suc d)
  then have lt: "i < n" by simp
  let ?info2 = "info[i := info ! Suc i]"
  have nz: "size' (info ! i) \<noteq> 0" using Suc.prems lt by simp
  have step: "remove_preload_range i info = remove_preload_range (Suc i) ?info2"
    using Suc.prems lt nz by (simp add: remove_preload_range.simps [of i])
  have ih: "remove_preload_range (Suc i) ?info2 =
      Some (take (Suc i) ?info2 @ drop (Suc (Suc i)) (take (Suc n) ?info2) @ drop n ?info2)"
    using Suc.hyps(2) Suc.prems lt by (intro Suc.hyps(1)) auto
  have a: "take (Suc i) ?info2 = take i info @ [info ! Suc i]"
    using Suc.prems lt by (simp add: take_Suc_conv_app_nth)
  have b: "drop (Suc (Suc i)) (take (Suc n) ?info2) = drop (Suc (Suc i)) (take (Suc n) info)"
    by (simp add: drop_take)
  have c: "drop n ?info2 = drop n info" using lt by simp
  have d: "drop (Suc i) (take (Suc n) info) = info ! Suc i # drop (Suc (Suc i)) (take (Suc n) info)"
    using Suc.prems lt by (simp add: Cons_nth_drop_Suc [symmetric])
  show ?case unfolding step ih a b c d by simp
qed

lemma list_end_props:
  assumes "zero_terminated info"
  shows "list_end info < length info" "size' (info ! list_end info) = 0"
    "\<forall>j < list_end info. size' (info ! j) \<noteq> 0"
proof -
  let ?P = "\<lambda>e. size' e \<noteq> 0"
  have neq: "takeWhile ?P info \<noteq> info"
    using assms by (simp add: takeWhile_eq_all_conv zero_terminated_def)
  have "takeWhile ?P info = take (list_end info) info"
    unfolding list_end_def by (rule takeWhile_eq_take)
  with neq have "\<not> length info \<le> list_end info" by auto
  then show 1: "list_end info < length info" by simp
  then show "size' (info ! list_end info) = 0"
    unfolding list_end_def using nth_length_takeWhile [of ?P info] by simp
  show "\<forall>j < list_end info. size' (info ! j) \<noteq> 0"
  proof (intro allI impI)
    fix j assume j: "j < list_end info"
    then have "takeWhile ?P info ! j \<in> set (takeWhile ?P info)"
      unfolding list_end_def by (rule nth_mem)
    then have "?P (takeWhile ?P info ! j)" by (rule set_takeWhileD [THEN conjunct2])
    then show "size' (info ! j) \<noteq> 0"
      using j unfolding list_end_def by (simp add: takeWhile_nth)
  qed
qed


text \<open>
  Claim C9. When the list has a terminator and \<open>i\<close> is the index of one of its entries
  (an index before the terminator), \<^verbatim>\<open>remove_preload_range\<close> returns, the array keeps
  its length, every entry after \<open>i\<close> up to and including the terminator has moved down one
  slot, the list is still zero-terminated, one entry shorter, and its entries are the old
  ones without the \<open>i\<close>-th, in the same order.
\<close>

theorem remove_preload_range_removes_entry:
  assumes zt: "zero_terminated info" and i: "i < list_end info"
  shows "remove_preload_range i info =
           Some (take i info @ drop (Suc i) (take (Suc (list_end info)) info) @ drop (list_end info) info)
         \<and> (\<forall>info'. remove_preload_range i info = Some info' \<longrightarrow>
               length info' = length info
             \<and> zero_terminated info'
             \<and> list_end info' = list_end info - 1
             \<and> takeWhile (\<lambda>e. size' e \<noteq> 0) info' =
                 take i (takeWhile (\<lambda>e. size' e \<noteq> 0) info) @ drop (Suc i) (takeWhile (\<lambda>e. size' e \<noteq> 0) info)
             \<and> info' ! (list_end info - 1) = info ! list_end info)"
proof -
  let ?P = "\<lambda>e. size' e \<noteq> 0"
  let ?n = "list_end info"
  let ?R = "take i info @ drop (Suc i) (take (Suc ?n) info) @ drop ?n info"
  note le = list_end_props [OF zt]
  have res: "remove_preload_range i info = Some ?R"
    using le i by (intro remove_preload_range_shift) auto
  have ents: "takeWhile ?P info = take ?n info"
    unfolding list_end_def by (rule takeWhile_eq_take)
  have split: "drop (Suc i) (take (Suc ?n) info) = drop (Suc i) (take ?n info) @ [info ! ?n]"
    using le(1) i by (simp add: take_Suc_conv_app_nth)
  have R: "?R = (take i info @ drop (Suc i) (take ?n info)) @ (info ! ?n # drop ?n info)"
    by (simp add: split)
  have allP: "\<forall>x \<in> set (take i info @ drop (Suc i) (take ?n info)). ?P x"
  proof
    fix x assume "x \<in> set (take i info @ drop (Suc i) (take ?n info))"
    moreover have "set (take i info) \<subseteq> set (take ?n info)"
      using i by (intro set_take_subset_set_take) simp
    ultimately have "x \<in> set (take ?n info)"
      by (auto dest: in_set_dropD)
    then show "?P x" unfolding ents [symmetric] by (rule set_takeWhileD [THEN conjunct2])
  qed
  have tw: "takeWhile ?P ?R = take i info @ drop (Suc i) (take ?n info)"
  proof -
    have "takeWhile ?P ((take i info @ drop (Suc i) (take ?n info)) @ (info ! ?n # drop ?n info))
        = (take i info @ drop (Suc i) (take ?n info)) @ takeWhile ?P (info ! ?n # drop ?n info)"
      using allP by (intro takeWhile_append2) blast
    also have "takeWhile ?P (info ! ?n # drop ?n info) = []"
      using le(2) by simp
    finally show ?thesis unfolding R by simp
  qed
  have len: "length ?R = length info" using le(1) i by simp
  have zt': "zero_terminated ?R"
    unfolding R zero_terminated_def using le(2) by auto
  have le': "list_end ?R = ?n - 1"
    unfolding list_end_def [of ?R] tw using le(1) i by simp
  have tw': "takeWhile ?P ?R = take i (takeWhile ?P info) @ drop (Suc i) (takeWhile ?P info)"
    unfolding tw ents using i by (simp add: min_def)
  have last: "?R ! (?n - 1) = info ! ?n"
  proof -
    have "length (take i info @ drop (Suc i) (take ?n info)) = ?n - 1"
      using le(1) i by simp
    then show ?thesis unfolding R by (metis nth_append_length)
  qed
  show ?thesis using res len zt' le' tw' last by simp
qed

theorem remove_preload_range_removes_entry_witness:
  "zero_terminated preload_info_init \<and> 1 < list_end preload_info_init
   \<and> remove_preload_range 1 preload_info_init =
       Some [\<lparr>addr = 0x10000, size' = 0x100000\<rparr>, \<lparr>addr = 0x7ff00000, size' = 0xf0000\<rparr>,
             \<lparr>addr = 0x7ffffe000000, size' = 0x1ff0000\<rparr>, \<lparr>addr = 0, size' = 0\<rparr>,
             \<lparr>addr = 0, size' = 0\<rparr>, \<lparr>addr = 0, size' = 0\<rparr>]"
  using remove_preload_range_removes_entry [of preload_info_init 1]
  by (simp add: preload_info_init_def zero_terminated_def list_end_def)

subsection \<open>\<^verbatim>\<open>preload_reserve\<close>\<close>

lemma dash_not_hex [simp]: "\<not> hex_digit CHR ''-''"
  by (simp add: hex_digit_def char_in_def)

lemma parse_digits:
  "list_all hex_digit xs \<Longrightarrow>
   preload_reserve_parse pm (xs @ rest) r s f =
   preload_reserve_parse pm rest (foldl (\<lambda>r c. r * 16 + hex_digit_val c) r xs) s f"
proof (induction xs arbitrary: r)
  case Nil
  then show ?case by simp
next
  case (Cons c xs)
  then have c: "hex_digit c" and xs: "list_all hex_digit xs" by simp_all
  have "preload_reserve_parse pm (c # xs @ rest) r s f =
        preload_reserve_parse pm (xs @ rest) (r * 16 + hex_digit_val c) s f"
    using c by (auto simp: hex_digit_def hex_digit_val_def algebra_simps)
  then show ?case using Cons.IH [OF xs] by simp
qed

lemma parse_bad_char:
  "\<exists>c \<in> set str. \<not> hex_digit c \<and> c \<noteq> CHR ''-'' \<Longrightarrow> preload_reserve_parse pm str r s f = None"
proof (induction str arbitrary: r s f)
  case Nil
  then show ?case by simp
next
  case (Cons c str)
  show ?case
  proof (cases "\<not> hex_digit c \<and> c \<noteq> CHR ''-''")
    case True
    then show ?thesis by (simp add: hex_digit_def)
  next
    case False
    with Cons.prems have "\<exists>c \<in> set str. \<not> hex_digit c \<and> c \<noteq> CHR ''-''" by auto
    then have "\<And>r s f. preload_reserve_parse pm str r s f = None" by (rule Cons.IH)
    then show ?thesis by simp
  qed
qed

lemma parse_second_dash:
  "CHR ''-'' \<in> set str \<Longrightarrow> preload_reserve_parse pm str r s False = None"
proof (induction str arbitrary: r)
  case Nil
  then show ?case by simp
next
  case (Cons c str)
  show ?case
  proof (cases "c = CHR ''-''")
    case True
    then show ?thesis by (simp add: char_in_def)
  next
    case False
    with Cons.prems have "CHR ''-'' \<in> set str" by simp
    then have "\<And>r. preload_reserve_parse pm str r s False = None" by (rule Cons.IH)
    with False show ?thesis by simp
  qed
qed

lemma split_at_dash:
  "CHR ''-'' \<in> set str \<Longrightarrow> str = before_dash str @ CHR ''-'' # after_dash str"
proof -
  assume d: "CHR ''-'' \<in> set str"
  let ?P = "\<lambda>c. c \<noteq> CHR ''-''"
  have "dropWhile ?P str \<noteq> []" using d by (simp add: dropWhile_eq_Nil_conv)
  moreover have "\<not> ?P (hd (dropWhile ?P str))"
    using calculation by (rule hd_dropWhile)
  ultimately have "dropWhile ?P str = CHR ''-'' # tl (dropWhile ?P str)"
    by (cases "dropWhile ?P str") auto
  then have "takeWhile ?P str @ CHR ''-'' # tl (dropWhile ?P str) = str"
    using takeWhile_dropWhile_id [of ?P str] by simp
  then show ?thesis by (simp add: before_dash_def after_dash_def)
qed

lemma parse_range_form:
  assumes "range_form str"
  shows "preload_reserve_parse pm str 0 0 True =
           Some (hex_value (after_dash str), hex_value (before_dash str) AND NOT pm, False)"
proof -
  from assms have d: "CHR ''-'' \<in> set str" and xs: "list_all hex_digit (before_dash str)"
    and ys: "list_all hex_digit (after_dash str)" by (simp_all add: range_form_def)
  have "preload_reserve_parse pm str 0 0 True =
        preload_reserve_parse pm (before_dash str @ CHR ''-'' # after_dash str) 0 0 True"
    using split_at_dash [OF d] by simp
  also have "\<dots> = preload_reserve_parse pm (CHR ''-'' # after_dash str) (hex_value (before_dash str)) 0 True"
    using parse_digits [OF xs] by (simp add: hex_value_def)
  also have "\<dots> = preload_reserve_parse pm (after_dash str @ []) 0 (hex_value (before_dash str) AND NOT pm) False"
    by (simp add: char_in_def)
  also have "\<dots> = Some (hex_value (after_dash str), hex_value (before_dash str) AND NOT pm, False)"
    using parse_digits [OF ys, of pm "[]"] by (simp add: hex_value_def)
  finally show ?thesis .
qed

lemma parse_all_hex:
  assumes "list_all hex_digit str"
  shows "preload_reserve_parse pm str 0 0 True = Some (hex_value str, 0, True)"
  using parse_digits [OF assms, of pm "[]" 0 0 True] by (simp add: hex_value_def)

lemma parse_malformed:
  assumes nr: "\<not> range_form str" and nh: "\<not> list_all hex_digit str"
  shows "preload_reserve_parse pm str 0 0 True = None"
proof (cases "CHR ''-'' \<in> set str")
  case False
  with nh have "\<exists>c \<in> set str. \<not> hex_digit c \<and> c \<noteq> CHR ''-''"
    by (auto simp: list_all_iff)
  then show ?thesis by (rule parse_bad_char)
next
  case True
  note sp = split_at_dash [OF True]
  show ?thesis
  proof (cases "list_all hex_digit (before_dash str)")
    case False
    then obtain c where c: "c \<in> set (before_dash str)" "\<not> hex_digit c" by (auto simp: list_all_iff)
    then have "c \<noteq> CHR ''-''" unfolding before_dash_def by (auto dest: set_takeWhileD)
    moreover have "c \<in> set str" using c(1) unfolding before_dash_def by (auto dest: set_takeWhileD)
    ultimately show ?thesis using c(2) by (intro parse_bad_char) blast
  next
    case xs: True
    with nr True have ys: "\<not> list_all hex_digit (after_dash str)" by (simp add: range_form_def)
    have "preload_reserve_parse pm str 0 0 True =
          preload_reserve_parse pm (before_dash str @ CHR ''-'' # after_dash str) 0 0 True"
      using sp by simp
    also have "\<dots> = preload_reserve_parse pm (CHR ''-'' # after_dash str) (hex_value (before_dash str)) 0 True"
      using parse_digits [OF xs] by (simp add: hex_value_def)
    also have "\<dots> = preload_reserve_parse pm (after_dash str) 0 (hex_value (before_dash str) AND NOT pm) False"
      by (simp add: char_in_def)
    also have "\<dots> = None"
    proof (cases "CHR ''-'' \<in> set (after_dash str)")
      case True
      then show ?thesis by (rule parse_second_dash)
    next
      case False
      with ys have "\<exists>c \<in> set (after_dash str). \<not> hex_digit c \<and> c \<noteq> CHR ''-''"
        by (auto simp: list_all_iff)
      then show ?thesis by (rule parse_bad_char)
    qed
    finally show ?thesis .
  qed
qed

lemma invalid_value_message:
  "wld_vsprintf ''invalid WINEPRELOADRESERVE value '%s'\<newline>'' [VA_str str] =
     Some (''invalid WINEPRELOADRESERVE value '' @ [CHR 0x27] @ str @ [CHR 0x27, CHR ''\<newline>''])"
  by (simp add: wld_vsprintf_def)

lemma fatal_invalid_value:
  "length str \<le> 219 \<Longrightarrow>
   fatal_error ''invalid WINEPRELOADRESERVE value '%s'\<newline>'' [VA_str str] =
     ([Sys_write 2 (''invalid WINEPRELOADRESERVE value '' @ [CHR 0x27] @ str @ [CHR 0x27, CHR ''\<newline>''])], Exits 1)"
  by (simp add: fatal_error_def invalid_value_message)

lemma preload_reserve_low_result:
  assumes zt: "zero_terminated info" and i: "i \<le> list_end info"
  shows "\<exists>k. i \<le> k \<and> k \<le> list_end info \<and>
           preload_reserve_low info i start end' =
             Some (if \<exists>e \<in> set (low_ranges (drop i info)). end' \<le> range_end e then (k, 0, 0)
                   else (k, Max (set (start # map range_end (low_ranges (drop i info)))), end'))"
  using i
proof (induction "list_end info - i" arbitrary: i start)
  case 0
  note le = list_end_props [OF zt]
  from 0 have i: "i = list_end info" by simp
  have d: "drop i info = info ! i # drop (Suc i) info"
    using le(1) i by (simp add: Cons_nth_drop_Suc)
  have "low_ranges (drop i info) = []"
    unfolding d low_ranges_def using le(2) i by simp
  moreover have "preload_reserve_low info i start end' = Some (i, start, end')"
    using le i by (subst preload_reserve_low.simps) simp
  ultimately show ?case using i by auto
next
  case (Suc d)
  note le = list_end_props [OF zt]
  from Suc have lt: "i < list_end info" by simp
  then have len: "i < length info" "Suc i < length info" using le(1) by simp_all
  have nz: "size' (info ! i) \<noteq> 0" using le(3) lt by simp
  have d: "drop i info = info ! i # drop (Suc i) info"
    using len by (simp add: Cons_nth_drop_Suc)
  let ?x = "info ! i"
  show ?case
  proof (cases "addr ?x > 0x00110000")
    case True
    then have "low_ranges (drop i info) = []"
      unfolding d low_ranges_def by (simp add: not_le)
    moreover have "preload_reserve_low info i start end' = Some (i, start, end')"
      using len nz True by (simp add: preload_reserve_low.simps [of info i])
    ultimately show ?thesis using lt by auto
  next
    case False
    then have lr: "low_ranges (drop i info) = ?x # low_ranges (drop (Suc i) info)"
      unfolding d low_ranges_def using nz by (simp add: not_less)
    show ?thesis
    proof (cases "end' \<le> addr ?x + size' ?x")
      case True
      then have "preload_reserve_low info i start end' = Some (i, 0, 0)"
        using len nz False by (simp add: preload_reserve_low.simps [of info i])
      moreover have "\<exists>e \<in> set (low_ranges (drop i info)). end' \<le> range_end e"
        unfolding lr using True by (simp add: range_end_def)
      ultimately show ?thesis using lt by auto
    next
      case nd: False
      let ?s = "if start < addr ?x + size' ?x then addr ?x + size' ?x else start"
      have step: "preload_reserve_low info i start end' = preload_reserve_low info (Suc i) ?s end'"
        using len nz False nd by (simp add: preload_reserve_low.simps [of info i])
      have "d = list_end info - Suc i" using Suc.hyps(2) by simp
      moreover have "Suc i \<le> list_end info" using lt by simp
      ultimately obtain k where k: "Suc i \<le> k" "k \<le> list_end info"
        "preload_reserve_low info (Suc i) ?s end' =
           Some (if \<exists>e \<in> set (low_ranges (drop (Suc i) info)). end' \<le> range_end e then (k, 0, 0)
                 else (k, Max (set (?s # map range_end (low_ranges (drop (Suc i) info)))), end'))"
        using Suc.hyps(1) [of "Suc i" ?s] by blast
      have ex: "(\<exists>e \<in> set (low_ranges (drop i info)). end' \<le> range_end e) =
                (\<exists>e \<in> set (low_ranges (drop (Suc i) info)). end' \<le> range_end e)"
        unfolding lr using nd by (simp add: range_end_def)
      have mx: "Max (set (?s # map range_end (low_ranges (drop (Suc i) info)))) =
                Max (set (start # map range_end (low_ranges (drop i info))))"
      proof -
        let ?S = "set (map range_end (low_ranges (drop (Suc i) info)))"
        have s: "?s = max start (range_end ?x)"
          by (auto simp: range_end_def max_def)
        have fin: "finite ?S" by simp
        have "Max (insert ?s ?S) = Max (insert start (insert (range_end ?x) ?S))"
        proof (cases "?S = {}")
          case True
          then show ?thesis unfolding s by simp
        next
          case False
          have "Max (insert start (insert (range_end ?x) ?S)) = max start (Max (insert (range_end ?x) ?S))"
            using fin by (intro Max_insert) simp_all
          also have "Max (insert (range_end ?x) ?S) = max (range_end ?x) (Max ?S)"
            using fin False by (intro Max_insert)
          finally have r: "Max (insert start (insert (range_end ?x) ?S)) = max (max start (range_end ?x)) (Max ?S)"
            by (simp add: max.assoc)
          have "Max (insert (max start (range_end ?x)) ?S) = max (max start (range_end ?x)) (Max ?S)"
            using fin False by (intro Max_insert)
          then show ?thesis unfolding s r .
        qed
        then show ?thesis unfolding lr by simp
      qed
      show ?thesis
        unfolding step k(3) ex mx using k(1,2) by (intro exI [of _ k]) simp
    qed
  qed
qed

lemma preload_reserve_slot_result:
  assumes zt: "zero_terminated info" and i: "i \<le> list_end info"
  shows "preload_reserve_slot info i = Some (list_end info)"
  using i
proof (induction "list_end info - i" arbitrary: i)
  case 0
  note le = list_end_props [OF zt]
  from 0 have "i = list_end info" by simp
  then show ?case using le by (subst preload_reserve_slot.simps) simp
next
  case (Suc d)
  note le = list_end_props [OF zt]
  from Suc have lt: "i < list_end info" by simp
  then have "preload_reserve_slot info i = preload_reserve_slot info (Suc i)"
    using le by (simp add: preload_reserve_slot.simps [of info i])
  moreover have "preload_reserve_slot info (Suc i) = Some (list_end info)"
    using Suc.hyps(2) lt by (intro Suc.hyps(1)) simp_all
  ultimately show ?case by simp
qed

lemma preload_reserve_record:
  assumes zt: "zero_terminated info"
  shows "(case preload_reserve_low info 0 s1 e1 of
            None \<Rightarrow> (evs, Undefined)
          | Some (i, start, end') \<Rightarrow>
              (case preload_reserve_slot info i of
                 None \<Rightarrow> (evs, Undefined)
               | Some k \<Rightarrow> (evs, Returns (g\<lparr>preload_info := info[k := \<lparr>addr = start, size' = end' - start\<rparr>]\<rparr>))))
         = (evs, Returns (g\<lparr>preload_info := info[list_end info := low_adjusted info s1 e1]\<rparr>))"
proof -
  obtain k where k: "k \<le> list_end info"
    "preload_reserve_low info 0 s1 e1 =
       Some (if \<exists>e \<in> set (low_ranges (drop 0 info)). e1 \<le> range_end e then (k, 0, 0)
             else (k, Max (set (s1 # map range_end (low_ranges (drop 0 info)))), e1))"
    using preload_reserve_low_result [OF zt, of 0 s1 e1] by auto
  have slot: "preload_reserve_slot info k = Some (list_end info)"
    using zt k(1) by (rule preload_reserve_slot_result)
  show ?thesis
    unfolding k(2) by (simp add: slot low_adjusted_def)
qed

lemma overlap_message:
  "wld_printf ''WINEPRELOADRESERVE range %p-%p overlaps preloader %p-%p\<newline>''
      [VA_ptr a, VA_ptr b, VA_ptr c, VA_ptr d] =
   ([Sys_write 2 (''WINEPRELOADRESERVE range '' @ hex_digits 16 a @ ''-'' @ hex_digits 16 b @
        '' overlaps preloader '' @ hex_digits 16 c @ ''-'' @ hex_digits 16 d @ ''\<newline>'')], Returns ())"
proof -
  have len: "\<And>x :: addr. length (hex_digits 16 x) = 16" by (simp add: hex_digits_def)
  have "wld_vsprintf ''WINEPRELOADRESERVE range %p-%p overlaps preloader %p-%p\<newline>''
      [VA_ptr a, VA_ptr b, VA_ptr c, VA_ptr d] =
    Some (''WINEPRELOADRESERVE range '' @ hex_digits 16 a @ ''-'' @ hex_digits 16 b @
        '' overlaps preloader '' @ hex_digits 16 c @ ''-'' @ hex_digits 16 d @ ''\<newline>'')"
    by (simp add: wld_vsprintf_def)
  then show ?thesis by (simp add: wld_printf_def len)
qed

lemma preload_reserve_range_form:
  assumes zt: "zero_terminated (preload_info g)" and rf: "range_form str"
  shows "preload_reserve g str =
     (if parsed_start g str < parsed_end g str \<and> overlaps_preloader g (parsed_start g str) (parsed_end g str)
      then ([Sys_write 2 (''WINEPRELOADRESERVE range '' @ hex_digits 16 (parsed_start g str) @ ''-'' @
                 hex_digits 16 (parsed_end g str) @ '' overlaps preloader '' @
                 hex_digits 16 (preloader_start g) @ ''-'' @ hex_digits 16 (preloader_end g) @ ''\<newline>'')],
            Returns (g\<lparr>preload_info := (preload_info g)[list_end (preload_info g) := low_adjusted (preload_info g) 0 0]\<rparr>))
      else if parsed_start g str < parsed_end g str
      then ([], Returns (g\<lparr>preload_info := (preload_info g)[list_end (preload_info g) :=
                 low_adjusted (preload_info g) (parsed_start g str) (parsed_end g str)]\<rparr>))
      else ([], Returns (g\<lparr>preload_info := (preload_info g)[list_end (preload_info g) := low_adjusted (preload_info g) 0 0]\<rparr>)))"
proof -
  note parse = parse_range_form [OF rf, of "page_mask g"]
  note rec = preload_reserve_record [OF zt]
  have a: "\<And>x y :: addr. \<not> x < y \<Longrightarrow> y \<le> x" by simp
  show ?thesis
    unfolding preload_reserve_def parse
    by (auto simp add: Let_def rec overlap_message parsed_start_def parsed_end_def overlaps_preloader_def
        simp del: wld_vsprintf_loop.simps)
qed

lemma low_adjusted_zero: "low_adjusted info 0 0 = \<lparr>addr = 0, size' = 0\<rparr>"
  by (cases "low_ranges info") (auto simp: low_adjusted_def)

lemma round_down: "(x :: 64 word) AND NOT (mask k) = push_bit k (drop_bit k x)"
  by (rule bit_word_eqI) (auto simp: bit_simps)

lemma page_round_down: "unat ((x::64 word) AND NOT (mask k)) = (unat x div 2^k) * 2^k"
proof -
  have le: "unat x div 2 ^ k * 2 ^ k \<le> unat x" by simp
  have "unat x < 2 ^ 64" using unsigned_less [of x] by simp
  with le have lt: "unat x div 2 ^ k * 2 ^ k < 2 ^ 64" by (rule le_less_trans)
  have "unat (push_bit k (drop_bit k x)) = take_bit 64 (push_bit k (drop_bit k (unat x)))"
    by (simp add: unsigned_push_bit_eq unat_drop_bit_eq)
  also have "\<dots> = take_bit 64 (unat x div 2 ^ k * 2 ^ k)"
    by (simp add: push_bit_eq_mult drop_bit_eq_div)
  also have "\<dots> = unat x div 2 ^ k * 2 ^ k"
    using lt by (simp add: take_bit_nat_eq_self)
  finally show ?thesis by (simp add: round_down)
qed

lemma unat_mask_64: "k < 64 \<Longrightarrow> unat (mask k :: 64 word) = 2 ^ k - 1"
proof -
  assume k: "k < 64"
  have "unat (mask k :: 64 word) = nat (uint (mask k :: 64 word))" by (rule unat_eq_nat_uint)
  also have "\<dots> = nat (mask k)" using k by (simp add: uint_mask_eq min_def)
  also have "\<dots> = nat (2 ^ k - 1)" by (simp add: mask_eq_exp_minus_1)
  also have "\<dots> = 2 ^ k - 1" by (simp add: nat_diff_distrib nat_power_eq)
  finally show ?thesis .
qed

lemma page_round_up:
  assumes k: "k < 64" and nowrap: "unat x + (2 ^ k - 1) < 2 ^ 64"
  shows "unat (((x::64 word) + mask k) AND NOT (mask k)) = ((unat x + (2 ^ k - 1)) div 2^k) * 2^k"
proof -
  have "unat (x + mask k) = unat x + unat (mask k :: 64 word)"
    using nowrap unat_add_lem [of x "mask k"] by (simp add: unat_mask_64 [OF k])
  then show ?thesis by (simp add: page_round_down unat_mask_64 [OF k])
qed

lemma low_adjusted_above:
  assumes "start < end'" and "\<forall>e \<in> set (low_ranges info). range_end e \<le> start"
  shows "low_adjusted info start end' = \<lparr>addr = start, size' = end' - start\<rparr>"
proof -
  have "\<not> (\<exists>e \<in> set (low_ranges info). end' \<le> range_end e)"
    using assms by auto
  moreover have "Max (set (start # map range_end (low_ranges info))) = start"
    using assms(2) by (intro Max_eqI) auto
  ultimately show ?thesis by (simp add: low_adjusted_def)
qed

text \<open>
  Claim C3, as the code has it. With a zero-terminated list, for every string \<open>str\<close>:
  \<^item> if \<open>str\<close> is two (possibly empty) runs of hexadecimal digits of either case around one
    \<^verbatim>\<open>-\<close>, the call returns; the parsed start is the first number with the bits of
    \<^verbatim>\<open>page_mask\<close> cleared and the parsed end is the second number plus \<^verbatim>\<open>page_mask\<close>
    with those bits cleared, in 64-bit arithmetic: for a page size \<open>2 ^ k\<close> that is the first
    number rounded down and (when the addition does not wrap) the second rounded up to a page
    boundary. That range is what gets recorded, in the first free slot, when it is not empty,
    does not meet the preloader and starts at or above the end of every low-memory range;
  \<^item> if \<open>str\<close> consists of hexadecimal digits only and its value is 0 (\<^verbatim>\<open>"0"\<close>, but
    also the empty string or \<^verbatim>\<open>"00"\<close>), the call returns and records an empty range;
  \<^item> every other string of at most 219 characters (so that the message fits the 256-byte
    buffer of \<^verbatim>\<open>fatal_error\<close>) is fatal: the message with the string between quotes is
    written to file descriptor 2 and the process exits with status 1.
\<close>

theorem preload_reserve_parses_range:
  assumes zt: "zero_terminated (preload_info g)"
  shows
   "(range_form str \<longrightarrow>
       (\<exists>evs g'. preload_reserve g str = (evs, Returns g'))
     \<and> (parsed_start g str < parsed_end g str
        \<and> \<not> overlaps_preloader g (parsed_start g str) (parsed_end g str)
        \<and> (\<forall>e \<in> set (low_ranges (preload_info g)). range_end e \<le> parsed_start g str)
        \<longrightarrow> preload_reserve g str =
              ([], Returns (g\<lparr>preload_info := (preload_info g)[list_end (preload_info g) :=
                     \<lparr>addr = parsed_start g str, size' = parsed_end g str - parsed_start g str\<rparr>]\<rparr>))))
    \<and> (k < 64 \<and> page_mask g = mask k \<longrightarrow>
         unat (parsed_start g str) = unat (hex_value (before_dash str)) div 2 ^ k * 2 ^ k
       \<and> (unat (hex_value (after_dash str)) + (2 ^ k - 1) < 2 ^ 64 \<longrightarrow>
            unat (parsed_end g str) = (unat (hex_value (after_dash str)) + (2 ^ k - 1)) div 2 ^ k * 2 ^ k))
    \<and> (zero_form str \<longrightarrow>
         preload_reserve g str =
           ([], Returns (g\<lparr>preload_info := (preload_info g)[list_end (preload_info g) := \<lparr>addr = 0, size' = 0\<rparr>]\<rparr>)))
    \<and> (\<not> range_form str \<and> \<not> zero_form str \<and> length str \<le> 219 \<longrightarrow>
         preload_reserve g str =
           ([Sys_write 2 (''invalid WINEPRELOADRESERVE value '' @ [CHR 0x27] @ str @ [CHR 0x27, CHR ''\<newline>''])],
            Exits 1))"
proof (intro conjI impI)
  assume rf: "range_form str"
  show "\<exists>evs g'. preload_reserve g str = (evs, Returns g')"
    unfolding preload_reserve_range_form [OF zt rf] by (simp split: if_splits)
  assume ok: "parsed_start g str < parsed_end g str
        \<and> \<not> overlaps_preloader g (parsed_start g str) (parsed_end g str)
        \<and> (\<forall>e \<in> set (low_ranges (preload_info g)). range_end e \<le> parsed_start g str)"
  then have "low_adjusted (preload_info g) (parsed_start g str) (parsed_end g str) =
      \<lparr>addr = parsed_start g str, size' = parsed_end g str - parsed_start g str\<rparr>"
    by (intro low_adjusted_above) simp_all
  then show "preload_reserve g str =
              ([], Returns (g\<lparr>preload_info := (preload_info g)[list_end (preload_info g) :=
                     \<lparr>addr = parsed_start g str, size' = parsed_end g str - parsed_start g str\<rparr>]\<rparr>))"
    unfolding preload_reserve_range_form [OF zt rf] using ok by simp
next
  assume "k < 64 \<and> page_mask g = mask k"
  then show "unat (parsed_start g str) = unat (hex_value (before_dash str)) div 2 ^ k * 2 ^ k"
    by (simp add: parsed_start_def page_round_down)
next
  assume "k < 64 \<and> page_mask g = mask k"
    and "unat (hex_value (after_dash str)) + (2 ^ k - 1) < 2 ^ 64"
  then show "unat (parsed_end g str) = (unat (hex_value (after_dash str)) + (2 ^ k - 1)) div 2 ^ k * 2 ^ k"
    by (simp add: parsed_end_def page_round_up)
next
  assume zf: "zero_form str"
  then have parse: "preload_reserve_parse (page_mask g) str 0 0 True = Some (0, 0, True)"
    using parse_all_hex [of str "page_mask g"] by (simp add: zero_form_def)
  show "preload_reserve g str =
           ([], Returns (g\<lparr>preload_info := (preload_info g)[list_end (preload_info g) := \<lparr>addr = 0, size' = 0\<rparr>]\<rparr>))"
    unfolding preload_reserve_def parse
    by (simp add: preload_reserve_record [OF zt] low_adjusted_zero)
next
  assume a: "\<not> range_form str \<and> \<not> zero_form str \<and> length str \<le> 219"
  show "preload_reserve g str =
           ([Sys_write 2 (''invalid WINEPRELOADRESERVE value '' @ [CHR 0x27] @ str @ [CHR 0x27, CHR ''\<newline>''])],
            Exits 1)"
  proof (cases "list_all hex_digit str")
    case True
    with a have nz: "hex_value str \<noteq> 0" by (simp add: zero_form_def)
    have parse: "preload_reserve_parse (page_mask g) str 0 0 True = Some (hex_value str, 0, True)"
      using True by (rule parse_all_hex)
    show ?thesis
      unfolding preload_reserve_def parse using nz a
      by (simp add: fatal_invalid_value del: wld_vsprintf_loop.simps)
  next
    case False
    with a have parse: "preload_reserve_parse (page_mask g) str 0 0 True = None"
      by (intro parse_malformed) simp_all
    show ?thesis
      unfolding preload_reserve_def parse using a
      by (simp add: fatal_invalid_value del: wld_vsprintf_loop.simps)
  qed
qed

lemma example_zero_terminated: "zero_terminated (preload_info globals_example)"
  by (simp add: globals_example_def preload_info_init_def zero_terminated_def)

lemma example_list_end: "list_end (preload_info globals_example) = 4"
  by (simp add: globals_example_def preload_info_init_def list_end_def)

lemma example_low_ranges:
  "low_ranges (preload_info globals_example) =
     [\<lparr>addr = 0x10000, size' = 0x100000\<rparr>, \<lparr>addr = 0x110000, size' = 0x67ef0000\<rparr>]"
  by (simp add: globals_example_def preload_info_init_def low_ranges_def)

text \<open>
  The three cases of C3 on the x86-64 list: \<^verbatim>\<open>68000000-6fffffff\<close> is recorded as
  \<open>0x68000000\<close> with size \<open>0x8000000\<close>, \<^verbatim>\<open>0\<close> records nothing, \<^verbatim>\<open>zzz\<close> is fatal.
\<close>

theorem preload_reserve_parses_range_witness:
  "zero_terminated (preload_info globals_example)
   \<and> range_form ''68000000-6fffffff''
   \<and> parsed_start globals_example ''68000000-6fffffff'' = 0x68000000
   \<and> parsed_end globals_example ''68000000-6fffffff'' = 0x70000000
   \<and> preload_reserve globals_example ''68000000-6fffffff'' =
        ([], Returns (globals_example\<lparr>preload_info := (preload_info globals_example)[4 :=
               \<lparr>addr = 0x68000000, size' = 0x8000000\<rparr>]\<rparr>))
   \<and> zero_form ''0''
   \<and> preload_reserve globals_example ''0'' =
        ([], Returns (globals_example\<lparr>preload_info := (preload_info globals_example)[4 := \<lparr>addr = 0, size' = 0\<rparr>]\<rparr>))
   \<and> \<not> range_form ''zzz'' \<and> \<not> zero_form ''zzz''
   \<and> preload_reserve globals_example ''zzz'' =
        ([Sys_write 2 ''invalid WINEPRELOADRESERVE value 'zzz'\<newline>''], Exits 1)"
proof -
  have rf: "range_form ''68000000-6fffffff''" by code_simp
  have ps: "parsed_start globals_example ''68000000-6fffffff'' = 0x68000000" by code_simp
  have pe: "parsed_end globals_example ''68000000-6fffffff'' = 0x70000000" by code_simp
  have ov: "\<not> overlaps_preloader globals_example 0x68000000 0x70000000"
    by (simp add: overlaps_preloader_def globals_example_def)
  have zf: "zero_form ''0''" by code_simp
  have nrf: "\<not> range_form ''zzz''" by code_simp
  have nzf: "\<not> zero_form ''zzz''" by code_simp
  have m: "page_mask globals_example = mask 12" by (simp add: globals_example_def mask_eq_exp_minus_1)
  note a = preload_reserve_parses_range [OF example_zero_terminated, of "''68000000-6fffffff''" 12]
  note b = preload_reserve_parses_range [OF example_zero_terminated, of "''0''" 12]
  note c = preload_reserve_parses_range [OF example_zero_terminated, of "''zzz''" 12]
  show ?thesis
    using a b c rf ps pe ov zf nrf nzf
    by (simp add: example_zero_terminated example_list_end example_low_ranges range_end_def)
qed

text \<open>
  C3 as the specification words it fails twice on the x86-64 list. The well-formed
  \<^verbatim>\<open>10000-20000\<close> parses to the page-aligned range \<open>0x10000\<close> to \<open>0x20000\<close>, but that lies
  inside the DOS area and nothing is recorded: the list is as before. And the empty string,
  which is neither \<^verbatim>\<open>"0"\<close> nor of the form START-END, is accepted silently.
\<close>

theorem preload_reserve_parses_range_counterexample:
  "range_form ''10000-20000''
   \<and> parsed_start globals_example ''10000-20000'' = 0x10000
   \<and> parsed_end globals_example ''10000-20000'' = 0x20000
   \<and> preload_reserve globals_example ''10000-20000'' = ([], Returns globals_example)
   \<and> \<not> (\<exists>e \<in> set (preload_info globals_example). addr e = 0x10000 \<and> addr e + size' e = 0x20000)
   \<and> [] \<noteq> ''0'' \<and> \<not> range_form []
   \<and> preload_reserve globals_example [] = ([], Returns globals_example)"
proof -
  have rf: "range_form ''10000-20000''" by code_simp
  have ps: "parsed_start globals_example ''10000-20000'' = 0x10000" by code_simp
  have pe: "parsed_end globals_example ''10000-20000'' = 0x20000" by code_simp
  have ov: "\<not> overlaps_preloader globals_example 0x10000 0x20000"
    by (simp add: overlaps_preloader_def globals_example_def)
  have la: "low_adjusted (preload_info globals_example) 0x10000 0x20000 = \<lparr>addr = 0, size' = 0\<rparr>"
    by (simp add: low_adjusted_def example_low_ranges range_end_def)
  have same: "globals_example\<lparr>preload_info := (preload_info globals_example)[4 := \<lparr>addr = 0, size' = 0\<rparr>]\<rparr> = globals_example"
    by (simp add: globals_example_def preload_info_init_def)
  have r1: "preload_reserve globals_example ''10000-20000'' = ([], Returns globals_example)"
    unfolding preload_reserve_range_form [OF example_zero_terminated rf] ps pe
    using ov by (simp add: la example_list_end same)
  have parse: "preload_reserve_parse (page_mask globals_example) [] 0 0 True = Some (0, 0, True)" by simp
  have r2: "preload_reserve globals_example [] = ([], Returns globals_example)"
    unfolding preload_reserve_def parse
    by (simp add: preload_reserve_record [OF example_zero_terminated] low_adjusted_zero example_list_end same)
  have none: "\<not> (\<exists>e \<in> set (preload_info globals_example). addr e = 0x10000 \<and> addr e + size' e = 0x20000)"
    by (simp add: globals_example_def preload_info_init_def)
  have nrf: "\<not> range_form []" by (simp add: range_form_def)
  show ?thesis using rf ps pe r1 r2 none nrf by simp
qed

text \<open>
  Claim C7, as the code has it. For a range that parsed, is not empty and does not meet the
  preloader, with \<open>low_ranges\<close> the entries the loop looks at (those before the first entry
  that is empty or starts above \<open>0x110000\<close>):
  \<^item> if the end of the range is at or below the end of one of them, the range is discarded: it is
    recorded with address 0 and size 0. A range that lies inside a low range is such a case, but
    so is one that begins below the low range and ends inside it;
  \<^item> otherwise the start is raised to the largest end of the low ranges, when that is above the
    start, and the range from there to the parsed end is recorded.
\<close>

theorem preload_reserve_low_memory:
  assumes zt: "zero_terminated (preload_info g)"
    and rf: "range_form str"
    and ne: "parsed_start g str < parsed_end g str"
    and np: "\<not> overlaps_preloader g (parsed_start g str) (parsed_end g str)"
  shows
   "((\<exists>e \<in> set (low_ranges (preload_info g)). parsed_end g str \<le> addr e + size' e) \<longrightarrow>
        preload_reserve g str =
          ([], Returns (g\<lparr>preload_info := (preload_info g)[list_end (preload_info g) := \<lparr>addr = 0, size' = 0\<rparr>]\<rparr>)))
    \<and> ((\<exists>e \<in> set (low_ranges (preload_info g)).
            addr e \<le> parsed_start g str \<and> parsed_end g str \<le> addr e + size' e) \<longrightarrow>
        preload_reserve g str =
          ([], Returns (g\<lparr>preload_info := (preload_info g)[list_end (preload_info g) := \<lparr>addr = 0, size' = 0\<rparr>]\<rparr>)))
    \<and> ((\<forall>e \<in> set (low_ranges (preload_info g)). addr e + size' e < parsed_end g str) \<longrightarrow>
        preload_reserve g str =
          ([], Returns (g\<lparr>preload_info := (preload_info g)[list_end (preload_info g) :=
             \<lparr>addr = Max (set (parsed_start g str # map (\<lambda>e. addr e + size' e) (low_ranges (preload_info g)))),
              size' = parsed_end g str
                - Max (set (parsed_start g str # map (\<lambda>e. addr e + size' e) (low_ranges (preload_info g))))\<rparr>]\<rparr>)))"
proof -
  have r: "preload_reserve g str =
      ([], Returns (g\<lparr>preload_info := (preload_info g)[list_end (preload_info g) :=
          low_adjusted (preload_info g) (parsed_start g str) (parsed_end g str)]\<rparr>))"
    unfolding preload_reserve_range_form [OF zt rf] using ne np by simp
  have re: "range_end = (\<lambda>e. addr e + size' e)" by (rule ext) (simp add: range_end_def)
  show ?thesis
    unfolding r low_adjusted_def re by (auto simp: not_le)
qed

text \<open>
  C7 on the x86-64 list: \<^verbatim>\<open>20000-30000\<close> lies inside the DOS area and is discarded;
  \<^verbatim>\<open>8000-70000000\<close> reaches beyond the low memory area and is recorded from its end,
  \<open>0x68000000\<close>.
\<close>

theorem preload_reserve_low_memory_witness:
  "zero_terminated (preload_info globals_example)
   \<and> range_form ''20000-30000'' \<and> range_form ''8000-70000000''
   \<and> preload_reserve globals_example ''20000-30000'' = ([], Returns globals_example)
   \<and> preload_reserve globals_example ''8000-70000000'' =
        ([], Returns (globals_example\<lparr>preload_info := (preload_info globals_example)[4 :=
               \<lparr>addr = 0x68000000, size' = 0x8000000\<rparr>]\<rparr>))"
proof -
  have rf1: "range_form ''20000-30000''" by code_simp
  have ps1: "parsed_start globals_example ''20000-30000'' = 0x20000" by code_simp
  have pe1: "parsed_end globals_example ''20000-30000'' = 0x30000" by code_simp
  have rf2: "range_form ''8000-70000000''" by code_simp
  have ps2: "parsed_start globals_example ''8000-70000000'' = 0x8000" by code_simp
  have pe2: "parsed_end globals_example ''8000-70000000'' = 0x70000000" by code_simp
  have ov1: "\<not> overlaps_preloader globals_example 0x20000 0x30000"
    and ov2: "\<not> overlaps_preloader globals_example 0x8000 0x70000000"
    by (simp_all add: overlaps_preloader_def globals_example_def)
  have same: "globals_example\<lparr>preload_info := (preload_info globals_example)[4 := \<lparr>addr = 0, size' = 0\<rparr>]\<rparr> = globals_example"
    by (simp add: globals_example_def preload_info_init_def)
  note a = preload_reserve_low_memory [OF example_zero_terminated rf1]
  note b = preload_reserve_low_memory [OF example_zero_terminated rf2]
  show ?thesis
    using a b ov1 ov2
    by (simp add: rf1 rf2 ps1 pe1 ps2 pe2 example_zero_terminated example_list_end example_low_ranges same)
qed

text \<open>
  C7 as the specification words it fails on the x86-64 list. \<^verbatim>\<open>8000-20000\<close> overlaps the DOS
  area (\<open>0x10000\<close> to \<open>0x110000\<close>) in part and is not inside it; its start is not moved to
  \<open>0x110000\<close>, the range is discarded. \<^verbatim>\<open>8000-70000000\<close> overlaps the DOS area in part as well;
  its recorded start is \<open>0x68000000\<close>, the end of the low memory area, not the end \<open>0x110000\<close> of
  the DOS area.
\<close>

theorem preload_reserve_low_memory_counterexample:
  "range_form ''8000-20000''
   \<and> parsed_start globals_example ''8000-20000'' = 0x8000
   \<and> parsed_end globals_example ''8000-20000'' = 0x20000
   \<and> preload_info globals_example ! 0 = \<lparr>addr = 0x10000, size' = 0x100000\<rparr>
   \<and> preload_reserve globals_example ''8000-20000'' = ([], Returns globals_example)
   \<and> preload_info globals_example ! 4 = \<lparr>addr = 0, size' = 0\<rparr>
   \<and> range_form ''8000-70000000''
   \<and> preload_reserve globals_example ''8000-70000000'' =
        ([], Returns (globals_example\<lparr>preload_info := (preload_info globals_example)[4 :=
               \<lparr>addr = 0x68000000, size' = 0x8000000\<rparr>]\<rparr>))"
proof -
  have rf: "range_form ''8000-20000''" by code_simp
  have ps: "parsed_start globals_example ''8000-20000'' = 0x8000" by code_simp
  have pe: "parsed_end globals_example ''8000-20000'' = 0x20000" by code_simp
  have ov: "\<not> overlaps_preloader globals_example 0x8000 0x20000"
    by (simp add: overlaps_preloader_def globals_example_def)
  have la: "low_adjusted (preload_info globals_example) 0x8000 0x20000 = \<lparr>addr = 0, size' = 0\<rparr>"
    by (simp add: low_adjusted_def example_low_ranges range_end_def)
  have same: "globals_example\<lparr>preload_info := (preload_info globals_example)[4 := \<lparr>addr = 0, size' = 0\<rparr>]\<rparr> = globals_example"
    by (simp add: globals_example_def preload_info_init_def)
  have r1: "preload_reserve globals_example ''8000-20000'' = ([], Returns globals_example)"
    unfolding preload_reserve_range_form [OF example_zero_terminated rf] ps pe
    using ov by (simp add: la example_list_end same)
  have rf2: "range_form ''8000-70000000''" by code_simp
  have ps2: "parsed_start globals_example ''8000-70000000'' = 0x8000" by code_simp
  have pe2: "parsed_end globals_example ''8000-70000000'' = 0x70000000" by code_simp
  have ov2: "\<not> overlaps_preloader globals_example 0x8000 0x70000000"
    by (simp add: overlaps_preloader_def globals_example_def)
  have la2: "low_adjusted (preload_info globals_example) 0x8000 0x70000000 = \<lparr>addr = 0x68000000, size' = 0x8000000\<rparr>"
    by (simp add: low_adjusted_def example_low_ranges range_end_def)
  have r2: "preload_reserve globals_example ''8000-70000000'' =
        ([], Returns (globals_example\<lparr>preload_info := (preload_info globals_example)[4 :=
               \<lparr>addr = 0x68000000, size' = 0x8000000\<rparr>]\<rparr>))"
    unfolding preload_reserve_range_form [OF example_zero_terminated rf2] ps2 pe2
    using ov2 by (simp add: la2 example_list_end)
  show ?thesis using rf ps pe r1 rf2 r2
    by (simp add: globals_example_def preload_info_init_def)
qed

subsection \<open>\<^verbatim>\<open>map_so_lib\<close>\<close>

lemmas elf_consts = PT_LOAD_def PT_DYNAMIC_def PT_INTERP_def PT_PHDR_def ET_DYN_def EM_X86_64_def
  PF_X_def PF_W_def PF_R_def PROT_NONE_def PROT_READ_def PROT_WRITE_def PROT_EXEC_def
  MAP_FILE_def MAP_PRIVATE_def MAP_COPY_def MAP_FIXED_def MAP_ANON_def
  sizeof_Phdr_def sizeof_Elf32_Dyn_def sizeof_buf_def



lemma map_so_lib_accepted:
  assumes "header_accepted f"
  shows "map_so_lib g f name l0 =
     after [Sys_open name, Sys_read (open_result f) (unat sizeof_buf)]
       (case scan_phdrs g f name 0 (init_link_map (header f) l0) [] of
             (evs, Exits n) \<Rightarrow> (evs, Exits n)
           | (evs, Undefined) \<Rightarrow> (evs, Undefined)
           | (evs, Returns (l, loadcmds)) \<Rightarrow>
               (case loadcmds of
                  [] \<Rightarrow> after evs (fatal_error ''%s: no segments to load\<newline>'' [VA_str name])
                | c # cs \<Rightarrow>
                    (let maplength = allocend (last loadcmds) - mapstart c in
                     if e_type (header f) = ET_DYN then
                       (let mappref = mapstart c;
                            l1 = l\<lparr>l_map_start := mmap_result f\<rparr>;
                            l2 = l1\<lparr>l_map_end := l_map_start l1 + maplength\<rparr>;
                            l3 = l2\<lparr>l_addr := l_map_start l2 - mapstart c\<rparr>;
                            (evs2, l4) = postmap g (header f) c l3;
                            (evs3, l5) = map_segments g (header f) (open_result f) cs l4
                        in after (evs
                              @ [Sys_mmap mappref maplength (prot c) (MAP_COPY OR MAP_FILE) (open_result f) (mapoff c),
                                 Sys_mprotect (l_addr l3 + mapend c) (allocend (last loadcmds) - mapend c)
                                   PROT_NONE]
                              @ evs2 @ evs3)
                             (finish_map (open_result f) l5))
                     else if mapstart c + maplength > preloader_start g \<and> mapstart c \<le> preloader_end g then
                       after evs
                         (fatal_error ''%s: binary overlaps preloader (%p-%p)\<newline>''
                            [VA_str name, VA_ptr (mapstart c), VA_ptr (mapstart c + maplength)])
                     else
                       (let l1 = l\<lparr>l_map_start := mapstart c + l_addr l\<rparr>;
                            l2 = l1\<lparr>l_map_end := l_map_start l1 + maplength\<rparr>;
                            (evs3, l3) = map_segments g (header f) (open_result f) loadcmds l2
                        in after (evs @ evs3) (finish_map (open_result f) l3)))))"
  using assms unfolding map_so_lib_def header_accepted_def Let_def
  by (simp del: wld_vsprintf_loop.simps)


lemma wld_vsprintf_loop_plain:
  "CHR ''%'' \<notin> set p \<Longrightarrow> wld_vsprintf_loop p args str = Some (str @ p)"
  by (induction p arbitrary: str) auto

lemma wld_vsprintf_name:
  "CHR ''%'' \<notin> set rest \<Longrightarrow>
   wld_vsprintf (CHR ''%'' # CHR ''s'' # c # rest) [VA_str name] = Some (name @ c # rest)"
  by (simp add: wld_vsprintf_def wld_vsprintf_loop_plain del: wld_vsprintf_loop.simps(2))
    (simp add: wld_vsprintf_loop_plain)

lemma fatal_error_name:
  "CHR ''%'' \<notin> set rest \<Longrightarrow> length name + length rest < 255 \<Longrightarrow>
   fatal_error (CHR ''%'' # CHR ''s'' # c # rest) [VA_str name] =
     ([Sys_write 2 (name @ c # rest)], Exits 1)"
  by (simp add: fatal_error_def wld_vsprintf_name del: wld_vsprintf_loop.simps)

lemma map_so_lib_rejects:
  assumes fd: "open_result f \<noteq> - 1" and len: "length name \<le> 199"
  shows
   "(read_result f \<noteq> 2048 \<longrightarrow>
       map_so_lib g f name l0 =
         ([Sys_open name, Sys_read (open_result f) 2048,
           Sys_write 2 (name @ '': failed to read ELF header\<newline>'')], Exits 1))
    \<and> (read_result f = 2048 \<and>
         (e_ident (header f) 0 \<noteq> 0x7f \<or> e_ident (header f) 1 \<noteq> of_char CHR ''E''
          \<or> e_ident (header f) 2 \<noteq> of_char CHR ''L'' \<or> e_ident (header f) 3 \<noteq> of_char CHR ''F'') \<longrightarrow>
       map_so_lib g f name l0 =
         ([Sys_open name, Sys_read (open_result f) 2048,
           Sys_write 2 (name @ '': not an ELF binary... don't know how to load it\<newline>'')], Exits 1))
    \<and> (read_result f = 2048 \<and> e_ident (header f) 0 = 0x7f \<and> e_ident (header f) 1 = of_char CHR ''E''
          \<and> e_ident (header f) 2 = of_char CHR ''L'' \<and> e_ident (header f) 3 = of_char CHR ''F''
          \<and> e_machine (header f) \<noteq> EM_X86_64 \<longrightarrow>
       map_so_lib g f name l0 =
         ([Sys_open name, Sys_read (open_result f) 2048,
           Sys_write 2 (name @ '': not an x86-64 ELF binary... don't know how to load it\<newline>'')], Exits 1))
    \<and> (read_result f = 2048 \<and> e_ident (header f) 0 = 0x7f \<and> e_ident (header f) 1 = of_char CHR ''E''
          \<and> e_ident (header f) 2 = of_char CHR ''L'' \<and> e_ident (header f) 3 = of_char CHR ''F''
          \<and> e_machine (header f) = EM_X86_64 \<and> unat (e_phnum (header f)) > 16 \<longrightarrow>
       map_so_lib g f name l0 =
         ([Sys_open name, Sys_read (open_result f) 2048,
           Sys_write 2 (name @ '': oops... not enough space for load commands\<newline>'')], Exits 1))
    \<and> (read_result f = 2048 \<and> e_ident (header f) 0 = 0x7f \<and> e_ident (header f) 1 = of_char CHR ''E''
          \<and> e_ident (header f) 2 = of_char CHR ''L'' \<and> e_ident (header f) 3 = of_char CHR ''F''
          \<and> e_machine (header f) = EM_X86_64 \<and> unat (e_phnum (header f)) \<le> 16
          \<and> unat (e_phoff (header f)) + unat (e_phnum (header f)) * 56 > 2048
          \<and> unat (e_phoff (header f)) + unat (e_phnum (header f)) * 56 < 2 ^ 64 \<longrightarrow>
       map_so_lib g f name l0 =
         ([Sys_open name, Sys_read (open_result f) 2048,
           Sys_write 2 (name @ '': oops... not enough space for ELF headers\<newline>'')], Exits 1))"
proof -
  have wrap: "sizeof_buf < e_phoff (header f) + ucast (e_phnum (header f)) * sizeof_Phdr"
    if a: "unat (e_phnum (header f)) \<le> 16"
      and b: "unat (e_phoff (header f)) + unat (e_phnum (header f)) * 56 > 2048"
      and c: "unat (e_phoff (header f)) + unat (e_phnum (header f)) * 56 < 2 ^ 64"
  proof -
    have u: "unat (ucast (e_phnum (header f)) :: 64 word) = unat (e_phnum (header f))"
      by (simp add: unsigned_ucast_eq take_bit_nat_eq_self unsigned_less [of "e_phnum (header f)", simplified, THEN less_trans])
    have m: "unat ((ucast (e_phnum (header f)) :: 64 word) * 56) = unat (e_phnum (header f)) * 56"
      using a by (simp add: unat_word_ariths u)
    have s: "unat (e_phoff (header f) + ucast (e_phnum (header f)) * 56)
        = unat (e_phoff (header f)) + unat (e_phnum (header f)) * 56"
    proof -
      have "unat (e_phoff (header f) + ucast (e_phnum (header f)) * 56)
          = (unat (e_phoff (header f)) + unat ((ucast (e_phnum (header f)) :: 64 word) * 56)) mod 2 ^ 64"
        by (simp only: unat_word_ariths(1)) simp
      then show ?thesis unfolding m using c by simp
    qed
    show ?thesis
      using b by (simp add: word_less_nat_alt s sizeof_buf_def sizeof_Phdr_def)
  qed
  show ?thesis
    using fd len wrap unfolding map_so_lib_def Let_def
    by (simp add: after_def fatal_error_name sizeof_buf_def del: wld_vsprintf_loop.simps)
qed

text \<open>
  Claim C8. The first four rejections hold as the specification says (\<open>map_so_lib_rejects\<close>),
  and so does the fifth when \<^verbatim>\<open>e_phoff + e_phnum * sizeof(ElfW(Phdr))\<close> does not wrap. But the
  sum is computed in 64 bits: for a file with \<^verbatim>\<open>e_phoff = 0xffffffffffffffc8\<close> and one
  program header the offset plus the table size is far beyond the 2 KiB buffer, the sum the
  code compares is 0, the check passes, nothing is written and the process does not exit:
  the loop goes on to read a program header 56 bytes before \<^verbatim>\<open>buf\<close>.
\<close>

theorem map_so_lib_phoff_wraps:
  "2048 < unat (e_phoff (header file_phoff_wraps)) + unat (e_phnum (header file_phoff_wraps)) * 56
   \<and> e_phoff (header file_phoff_wraps) + ucast (e_phnum (header file_phoff_wraps)) * sizeof_Phdr = 0
   \<and> map_so_lib globals_example file_phoff_wraps ''wine'' link_map_zero =
        ([Sys_open ''wine'', Sys_read 3 2048], Undefined)"
proof -
  have acc: "header_accepted file_phoff_wraps"
    by (simp add: header_accepted_def file_phoff_wraps_def file_pie_def hdr_pie_def elf_magic_def elf_consts)
  have scan: "scan_phdrs globals_example file_phoff_wraps ''wine'' 0
      (init_link_map (header file_phoff_wraps) link_map_zero) [] = ([], Undefined)"
    by (simp add: scan_phdrs.simps file_phoff_wraps_def file_pie_def hdr_pie_def init_link_map_def
        link_map_zero_def elf_consts)
  have "map_so_lib globals_example file_phoff_wraps ''wine'' link_map_zero =
        ([Sys_open ''wine'', Sys_read 3 2048], Undefined)"
    unfolding map_so_lib_accepted [OF acc] scan
    by (simp add: after_def file_phoff_wraps_def file_pie_def elf_consts)
  then show ?thesis
    by (simp add: file_phoff_wraps_def file_pie_def hdr_pie_def elf_consts)
qed

text \<open>At that input the run ends in neither a message nor an exit.\<close>

theorem map_so_lib_phoff_wraps_witness:
  "fst (map_so_lib globals_example file_phoff_wraps ''wine'' link_map_zero) = [Sys_open ''wine'', Sys_read 3 2048]
   \<and> snd (map_so_lib globals_example file_phoff_wraps ''wine'' link_map_zero) \<noteq> Exits 1"
  using map_so_lib_phoff_wraps by simp

lemma overlap_implies_check:
  fixes a len ps pe :: addr
  assumes nowrap: "unat a + unat len < 2 ^ 64"
    and ov: "unat a < unat pe" "unat ps < unat a + unat len"
  shows "ps < a + len \<and> a \<le> pe"
proof -
  have "unat (a + len) = unat a + unat len"
    using nowrap unat_add_lem [of a len] by simp
  then show ?thesis using ov by (simp add: word_less_nat_alt word_le_nat_alt)
qed

lemma binary_overlap_message:
  "wld_vsprintf ''%s: binary overlaps preloader (%p-%p)\<newline>'' [VA_str name, VA_ptr a, VA_ptr b] =
     Some (name @ '': binary overlaps preloader ('' @ hex_digits 16 a @ ''-'' @ hex_digits 16 b @ '')\<newline>'')"
  by (simp add: wld_vsprintf_def)

text \<open>
  Claim C5, as the code has it. For an object that is not \<^verbatim>\<open>ET_DYN\<close>, whose header was
  accepted and whose program headers gave the load commands \<open>c # cs\<close>: if the code's test
  \<^verbatim>\<open>mapstart + maplength > preloader_start && mapstart <= preloader_end\<close> holds (in 64-bit
  arithmetic; \<open>overlap_implies_check\<close> shows that it does for every region that overlaps the
  preloader's extent without wrapping) and the name has at most 191 characters (so that the
  message fits the buffer of \<^verbatim>\<open>fatal_error\<close>), then \<^verbatim>\<open>map_so_lib\<close> has only opened and
  read the file, writes the name and the object's own range, as two 16-digit hexadecimal
  numbers, to file descriptor 2 and exits with status 1. No mapping is made.
\<close>

theorem map_so_lib_exec_overlap_fatal:
  assumes acc: "header_accepted f"
    and scan: "scan_phdrs g f name 0 (init_link_map (header f) l0) [] = ([], Returns (l, c # cs))"
    and exec: "e_type (header f) \<noteq> ET_DYN"
    and ov: "preloader_start g < mapstart c + (allocend (last (c # cs)) - mapstart c)
             \<and> mapstart c \<le> preloader_end g"
    and len: "length name \<le> 191"
  shows "map_so_lib g f name l0 =
    ([Sys_open name, Sys_read (open_result f) 2048,
      Sys_write 2 (name @ '': binary overlaps preloader ('' @ hex_digits 16 (mapstart c) @ ''-''
                     @ hex_digits 16 (mapstart c + (allocend (last (c # cs)) - mapstart c)) @ '')\<newline>'')],
     Exits 1)"
proof -
  have hl: "\<And>x :: addr. length (hex_digits 16 x) = 16" by (simp add: hex_digits_def)
  have "fatal_error ''%s: binary overlaps preloader (%p-%p)\<newline>''
          [VA_str name, VA_ptr (mapstart c), VA_ptr (mapstart c + (allocend (last (c # cs)) - mapstart c))]
      = ([Sys_write 2 (name @ '': binary overlaps preloader ('' @ hex_digits 16 (mapstart c) @ ''-''
                     @ hex_digits 16 (mapstart c + (allocend (last (c # cs)) - mapstart c)) @ '')\<newline>'')],
         Exits 1 :: wld_link_map outcome)"
    using len by (simp add: fatal_error_def binary_overlap_message hl del: wld_vsprintf_loop.simps)
  then show ?thesis
    unfolding map_so_lib_accepted [OF acc] scan using exec ov
    by (simp add: after_def Let_def sizeof_buf_def del: wld_vsprintf_loop.simps)
qed

lemma exec_overlap_accepted: "header_accepted file_exec_overlap"
  by (simp add: header_accepted_def file_exec_overlap_def file_pie_def hdr_pie_def elf_magic_def elf_consts)

lemma exec_overlap_scan:
  "scan_phdrs globals_example file_exec_overlap name 0
      (init_link_map (header file_exec_overlap) link_map_zero) [] =
     ([], Returns (init_link_map (header file_exec_overlap) link_map_zero,
        [\<lparr>mapstart = 0x7d000000, mapend = 0x7d001000, dataend = 0x7d001000, allocend = 0x7d001000,
           mapoff = 0, prot = 5\<rparr>,
         \<lparr>mapstart = 0x7d402000, mapend = 0x7d403000, dataend = 0x7d402800, allocend = 0x7d404800,
           mapoff = 0x402000, prot = 3\<rparr>]))"
  by (simp add: scan_phdrs.simps file_exec_overlap_def file_pie_def hdr_pie_def init_link_map_def
      link_map_zero_def ph_text_def ph_data_def elf_consts globals_example_def make_loadcmd_def)

text \<open>
  C5 on a fixed-address executable from \<open>0x7d000000\<close> to \<open>0x7d404800\<close> and a preloader at
  \<open>0x7d400000\<close> to \<open>0x7d404000\<close>.
\<close>

theorem map_so_lib_exec_overlap_fatal_witness:
  "header_accepted file_exec_overlap
   \<and> e_type (header file_exec_overlap) \<noteq> ET_DYN
   \<and> map_so_lib globals_example file_exec_overlap ''wine'' link_map_zero =
      ([Sys_open ''wine'', Sys_read 3 2048,
        Sys_write 2 ''wine: binary overlaps preloader (000000007d000000-000000007d404800)\<newline>''],
       Exits 1)"
proof -
  have h1: "hex_digits 16 (0x7d000000 :: addr) = ''000000007d000000''" by code_simp
  have h2: "hex_digits 16 (0x7d404800 :: addr) = ''000000007d404800''" by code_simp
  have et: "e_type (header file_exec_overlap) \<noteq> ET_DYN"
    by (simp add: file_exec_overlap_def hdr_pie_def elf_consts)
  have fd: "open_result file_exec_overlap = 3" by (simp add: file_exec_overlap_def file_pie_def)
  show ?thesis
    using map_so_lib_exec_overlap_fatal [OF exec_overlap_accepted exec_overlap_scan et, of "''wine''"]
    by (simp add: exec_overlap_accepted et fd h1 h2 globals_example_def)
qed

text \<open>
  C5 as the specification words it fails: the message names one range, the object's. The
  preloader's range, \<open>7d400000\<close> to \<open>7d404000\<close> here, is not in the text written.
\<close>

theorem map_so_lib_exec_overlap_counterexample:
  "e_type (header file_exec_overlap) = 2
   \<and> preloader_start globals_example = 0x7d400000 \<and> preloader_end globals_example = 0x7d404000
   \<and> map_so_lib globals_example file_exec_overlap ''wine'' link_map_zero =
      ([Sys_open ''wine'', Sys_read 3 2048,
        Sys_write 2 ''wine: binary overlaps preloader (000000007d000000-000000007d404800)\<newline>''],
       Exits 1)
   \<and> \<not> occurs_in ''7d400000'' ''wine: binary overlaps preloader (000000007d000000-000000007d404800)\<newline>''
   \<and> \<not> occurs_in ''7d404000'' ''wine: binary overlaps preloader (000000007d000000-000000007d404800)\<newline>''"
proof -
  have h1: "hex_digits 16 (0x7d000000 :: addr) = ''000000007d000000''" by code_simp
  have h2: "hex_digits 16 (0x7d404800 :: addr) = ''000000007d404800''" by code_simp
  have "fatal_error ''%s: binary overlaps preloader (%p-%p)\<newline>''
          [VA_str ''wine'', VA_ptr 0x7d000000, VA_ptr 0x7d404800]
      = ([Sys_write 2 ''wine: binary overlaps preloader (000000007d000000-000000007d404800)\<newline>''],
         Exits 1 :: wld_link_map outcome)"
    by (simp add: fatal_error_def binary_overlap_message h1 h2 del: wld_vsprintf_loop.simps)
  then have run: "map_so_lib globals_example file_exec_overlap ''wine'' link_map_zero =
      ([Sys_open ''wine'', Sys_read 3 2048,
        Sys_write 2 ''wine: binary overlaps preloader (000000007d000000-000000007d404800)\<newline>''],
       Exits 1)"
    unfolding map_so_lib_accepted [OF exec_overlap_accepted] exec_overlap_scan
    by (simp add: after_def file_exec_overlap_def file_pie_def hdr_pie_def globals_example_def elf_consts
        del: wld_vsprintf_loop.simps)
  have o1: "\<not> occurs_in ''7d400000'' ''wine: binary overlaps preloader (000000007d000000-000000007d404800)\<newline>''"
    by code_simp
  have o2: "\<not> occurs_in ''7d404000'' ''wine: binary overlaps preloader (000000007d000000-000000007d404800)\<newline>''"
    by code_simp
  show ?thesis using run o1 o2
    by (simp add: file_exec_overlap_def hdr_pie_def globals_example_def)
qed










subsection \<open>\<^verbatim>\<open>set_auxiliary_values\<close>\<close>

























lemma shifted_byte:
  fixes a b :: addr
  shows "a + of_nat off = b + of_nat (unat (a - b) + off)"
  by simp









lemma count_new_bound:
  "AT_NULL \<in> fst ` set new \<Longrightarrow> \<exists>nc. count_new m av n new k = Some nc \<and> k \<le> nc \<and> nc \<le> k + length new"
proof (induction new arbitrary: k)
  case Nil
  then show ?case by simp
next
  case (Cons e new)
  obtain t v where e: "e = (t, v)" by (cases e)
  show ?case
  proof (cases "t = AT_NULL")
    case True
    then show ?thesis by (simp add: e)
  next
    case False
    then have tn: "AT_NULL \<in> fst ` set new" using Cons.prems by (auto simp: e)
    from Cons.IH [OF tn, of "if find_type m av n t = None then Suc k else k"]
    show ?thesis using False by (auto simp: e split: if_splits)
  qed
qed





























































end
